theory Spec2Isabelle
  imports Complex_Main "HOL-Library.AList" "HOL-Library.Multiset"
begin

section \<open>Python values, dictionaries and exceptions\<close>

text \<open>
  The weather service passes decoded JSON around as plain Python values. A Python
  \<^verbatim>\<open>str\<close> is modelled by the bytes of its UTF-8 encoding, a \<^verbatim>\<open>dict\<close> with string keys by
  an association list read with \<^const>\<open>map_of\<close> and written with \<^const>\<open>AList.update\<close>
  (the first binding of a key is the dictionary's entry), \<^verbatim>\<open>None\<close> by \<open>PNone\<close>.
\<close>

datatype pyval =
    PNone
  | PBool bool
  | PInt int
  | PFloat rat
  | PStr string
  | PList "pyval list"
  | PDict "(string \<times> pyval) list"

type_synonym pydict = "(string \<times> pyval) list"

text \<open>
  The exceptions that the modelled code can raise. \<open>KeyError\<close> carries the text that
  \<^verbatim>\<open>str(e)\<close> yields, which is the \<^verbatim>\<open>repr\<close> of the missing key.
\<close>

datatype py_error =
    ValueError string
  | KeyError string
  | IndexError
  | TypeError
  | AttributeError
  | FieldError string
  | IntegrityError string

definition sum_bind :: "'e + 'a \<Rightarrow> ('a \<Rightarrow> 'e + 'b) \<Rightarrow> 'e + 'b" where
  "sum_bind m f = (case m of Inl e \<Rightarrow> Inl e | Inr x \<Rightarrow> f x)"

text \<open>Truthiness of an optional string: \<^verbatim>\<open>None\<close> and \<^verbatim>\<open>''\<close> are false.\<close>

fun truthy :: "string option \<Rightarrow> bool" where
  "truthy None = False"
| "truthy (Some s) = (s \<noteq> [])"

text \<open>\<^verbatim>\<open>x or ''\<close> for an optional string.\<close>

fun or_empty :: "string option \<Rightarrow> string" where
  "or_empty None = []"
| "or_empty (Some s) = s"

text \<open>The \<^verbatim>\<open>repr\<close> of one of the literal keys of the source: the key in single quotes.\<close>

definition quote :: "string \<Rightarrow> string" where
  "quote k = CHR 0x27 # k @ [CHR 0x27]"

text \<open>
  \<^verbatim>\<open>obj[key]\<close> with a string key: a dictionary looks the key up and raises \<^verbatim>\<open>KeyError\<close>
  when it is missing; every other value raises \<^verbatim>\<open>TypeError\<close> (a list or a string wants an
  integer index, the rest are not subscriptable).
\<close>

fun getitem :: "pyval \<Rightarrow> string \<Rightarrow> py_error + pyval" where
  "getitem (PDict kvs) k =
     (case map_of kvs k of Some v \<Rightarrow> Inr v | None \<Rightarrow> Inl (KeyError (quote k)))"
| "getitem v k = Inl TypeError"

text \<open>The first character of a UTF-8 encoded string: a lead byte and its continuation bytes.\<close>

definition is_continuation :: "char \<Rightarrow> bool" where
  "is_continuation c = (128 \<le> (of_char c :: nat) \<and> (of_char c :: nat) < 192)"

fun first_char :: "string \<Rightarrow> string" where
  "first_char [] = []"
| "first_char (c # cs) = c # takeWhile is_continuation cs"

text \<open>
  \<^verbatim>\<open>obj[0]\<close>: a list and a string raise \<^verbatim>\<open>IndexError\<close> when empty; a dictionary decoded
  from JSON has string keys only, so the key \<^verbatim>\<open>0\<close> is missing and \<^verbatim>\<open>str(KeyError(0))\<close> is
  \<^verbatim>\<open>0\<close>; the rest are not subscriptable.
\<close>

fun getitem0 :: "pyval \<Rightarrow> py_error + pyval" where
  "getitem0 (PList xs) = (case xs of [] \<Rightarrow> Inl IndexError | x # _ \<Rightarrow> Inr x)"
| "getitem0 (PStr s) = (if s = [] then Inl IndexError else Inr (PStr (first_char s)))"
| "getitem0 (PDict kvs) = Inl (KeyError ''0'')"
| "getitem0 v = Inl TypeError"

text \<open>\<^verbatim>\<open>obj.get(key, default)\<close>: only a dictionary has the method.\<close>

fun dict_get :: "pyval \<Rightarrow> string \<Rightarrow> pyval \<Rightarrow> py_error + pyval" where
  "dict_get (PDict kvs) k d = (case map_of kvs k of Some v \<Rightarrow> Inr v | None \<Rightarrow> Inr d)"
| "dict_get v k d = Inl AttributeError"

text \<open>\<^verbatim>\<open>d.get(key, default)\<close> and \<^verbatim>\<open>d[key] = v\<close> on a value known to be a dictionary.\<close>

definition get_default :: "pydict \<Rightarrow> string \<Rightarrow> pyval \<Rightarrow> pyval" where
  "get_default d k dflt = (case map_of d k of Some v \<Rightarrow> v | None \<Rightarrow> dflt)"

definition setitem :: "pydict \<Rightarrow> string \<Rightarrow> pyval \<Rightarrow> pydict" where
  "setitem d k v = AList.update k v d"

subsection \<open>Accented letters of the source's messages, in UTF-8\<close>

definition a_tilde :: string where "a_tilde = [CHR 0xC3, CHR 0xA3]"
definition a_acute :: string where "a_acute = [CHR 0xC3, CHR 0xA1]"
definition a_circ :: string where "a_circ = [CHR 0xC3, CHR 0xA2]"
definition o_acute :: string where "o_acute = [CHR 0xC3, CHR 0xB3]"
definition u_acute :: string where "u_acute = [CHR 0xC3, CHR 0xBA]"

section \<open>The collaborators of the service\<close>

text \<open>
  The parameters of one provider request, and what \<^verbatim>\<open>requests.get\<close> can do with it:
  raise \<^verbatim>\<open>Timeout\<close>, \<^verbatim>\<open>ConnectionError\<close> or another \<^verbatim>\<open>RequestException\<close> (with its text),
  or return a response. Of a response the code reads the status, the exception text
  that \<^verbatim>\<open>raise_for_status\<close> raises for a 4xx or 5xx status, and the decoded body
  (\<open>Inl\<close> the text of the decoding error, itself a \<^verbatim>\<open>RequestException\<close>).
\<close>

record query_params =
  q :: string
  appid :: string
  units :: string
  lang :: string

record http_response =
  status_code :: int
  http_error :: string
  json_body :: "string + pyval"

datatype http_outcome =
    Timeout
  | ConnectionError
  | RequestException string
  | Response http_response

text \<open>The jobs that \<^verbatim>\<open>.delay(...)\<close> puts on the task queue, with their arguments.\<close>

datatype job =
    SaveWeatherQuery string "string option" pydict "string option" "string option"
  | CleanupOldQueries

text \<open>
  A row of the \<^verbatim>\<open>WeatherQuery\<close> table (models.py). \<open>row_id\<close> is the automatic primary
  key \<^verbatim>\<open>id\<close>; a column that holds \<^verbatim>\<open>NULL\<close> holds \<open>PNone\<close>.
\<close>

record weather_query =
  row_id :: nat
  city :: pyval
  country :: pyval
  temperature :: pyval
  feels_like :: pyval
  humidity :: pyval
  pressure :: pyval
  description :: pyval
  icon :: pyval
  wind_speed :: pyval
  wind_direction :: pyval
  visibility :: pyval
  uv_index :: pyval
  query_timestamp :: nat
  ip_address :: pyval
  user_agent :: pyval

datatype field_kind =
    AutoField
  | CharField
  | TextField
  | FloatField
  | IntegerField
  | DateTimeField
  | GenericIPAddressField

text \<open>
  What the runtime, the libraries and the configuration supply:
  \<^item> \<open>lower\<close>: \<^verbatim>\<open>str.lower\<close>;
  \<^item> \<open>isoformat\<close>: the ISO rendering of an instant of the clock;
  \<^item> \<open>requests_get\<close>: the provider behind \<^verbatim>\<open>requests.get(url, params)\<close>;
  \<^item> \<open>OPENWEATHER_API_KEY\<close>: the configured credential;
  \<^item> \<open>get_prep_value\<close>: the conversion a column class applies to a value that is not
    \<^verbatim>\<open>None\<close> before it is written (\<^verbatim>\<open>float(value)\<close> for a \<^verbatim>\<open>FloatField\<close>, and so on);
  \<^item> \<open>db_order\<close>: the rows as the database returns them for \<^verbatim>\<open>ORDER BY\<close> the given
    ordering expression;
  \<^item> \<open>py_int\<close>: \<^verbatim>\<open>int(s)\<close> on a string, \<open>None\<close> when it raises \<^verbatim>\<open>ValueError\<close>;
  \<^item> \<open>request_serializer\<close>: \<^verbatim>\<open>WeatherRequestSerializer\<close> on the query parameters,
    \<open>Inl\<close> its errors, \<open>Inr\<close> the validated city and country;
  \<^item> \<open>response_serializer\<close>: \<^verbatim>\<open>WeatherResponseSerializer(result).data\<close>;
  \<^item> \<open>query_serializer\<close>: \<^verbatim>\<open>WeatherQuerySerializer\<close> on one row.
\<close>

record env =
  lower :: "string \<Rightarrow> string"
  isoformat :: "nat \<Rightarrow> string"
  requests_get :: "string \<Rightarrow> query_params \<Rightarrow> http_outcome"
  OPENWEATHER_API_KEY :: "string option"
  get_prep_value :: "field_kind \<Rightarrow> pyval \<Rightarrow> py_error + pyval"
  db_order :: "string \<Rightarrow> weather_query list \<Rightarrow> weather_query list"
  py_int :: "string \<Rightarrow> int option"
  request_serializer :: "(string \<rightharpoonup> string) \<Rightarrow> pyval + (string \<times> string option)"
  response_serializer :: "pydict \<Rightarrow> py_error + pyval"
  query_serializer :: "weather_query \<Rightarrow> pyval"

text \<open>
  The state outside the process: the cache (each entry with the instant it expires),
  the clock, the task queue, the requests sent to the provider so far, and the history
  table with its next primary key.
\<close>

record world =
  cache :: "string \<rightharpoonup> (pydict \<times> nat)"
  now :: nat
  queue :: "job list"
  requests :: "query_params list"
  table :: "weather_query list"
  next_id :: nat

text \<open>
  Modelled from the spec: the Cache Store, \<^verbatim>\<open>django.core.cache.cache\<close>, whose backend is
  configured outside the repository. \<^verbatim>\<open>get(key)\<close> yields the value or absent,
  \<^verbatim>\<open>set(key, value, ttl)\<close> stores a copy of the value, and an entry is absent once its
  time to live has elapsed.
\<close>

definition cache_get :: "world \<Rightarrow> string \<Rightarrow> pydict option" where
  "cache_get w k =
     (case cache w k of
        None \<Rightarrow> None
      | Some (v, expires) \<Rightarrow> if now w < expires then Some v else None)"

definition cache_set :: "world \<Rightarrow> string \<Rightarrow> pydict \<Rightarrow> nat \<Rightarrow> world" where
  "cache_set w k v timeout = w\<lparr>cache := (cache w)(k \<mapsto> (v, now w + timeout))\<rparr>"

section \<open>services.py: WeatherService\<close>

record weather_service =
  api_key :: "string option"
  base_url :: string
  cache_timeout :: nat

text \<open>\<^verbatim>\<open>__init__\<close>, from the configured \<^verbatim>\<open>OPENWEATHER_API_KEY\<close>.\<close>

definition WeatherService :: "env \<Rightarrow> weather_service" where
  "WeatherService e =
     \<lparr>api_key = OPENWEATHER_API_KEY e,
      base_url = ''https://api.openweathermap.org/data/2.5/weather'',
      cache_timeout = 600\<rparr>"

definition make_cache_key :: "(string \<Rightarrow> string) \<Rightarrow> string \<Rightarrow> string option \<Rightarrow> string" where
  "make_cache_key lc cty ctry =
     (if truthy ctry then ''weather:'' @ lc cty @ '':'' @ lc (or_empty ctry)
      else ''weather:'' @ lc cty)"

text \<open>
  The body of the \<^verbatim>\<open>try\<close> of \<^verbatim>\<open>_parse_weather_data\<close>: the entries of the dictionary
  display are evaluated in the order written, and the first exception ends it.
\<close>

definition parse_fields :: "string \<Rightarrow> pyval \<Rightarrow> py_error + pydict" where
  "parse_fields ts data =
     sum_bind (getitem data ''name'') (\<lambda>v_city.
     sum_bind (sum_bind (getitem data ''sys'') (\<lambda>s. getitem s ''country'')) (\<lambda>v_country.
     sum_bind (sum_bind (getitem data ''main'') (\<lambda>m. getitem m ''temp'')) (\<lambda>v_temp.
     sum_bind (sum_bind (getitem data ''main'') (\<lambda>m. getitem m ''feels_like'')) (\<lambda>v_feels.
     sum_bind (sum_bind (getitem data ''main'') (\<lambda>m. getitem m ''humidity'')) (\<lambda>v_hum.
     sum_bind (sum_bind (getitem data ''main'') (\<lambda>m. getitem m ''pressure'')) (\<lambda>v_press.
     sum_bind (sum_bind (sum_bind (getitem data ''weather'') getitem0)
                 (\<lambda>x. getitem x ''description'')) (\<lambda>v_descr.
     sum_bind (sum_bind (sum_bind (getitem data ''weather'') getitem0)
                 (\<lambda>x. getitem x ''icon'')) (\<lambda>v_icon.
     sum_bind (sum_bind (getitem data ''wind'') (\<lambda>x. getitem x ''speed'')) (\<lambda>v_speed.
     sum_bind (sum_bind (getitem data ''wind'') (\<lambda>x. dict_get x ''deg'' (PInt 0))) (\<lambda>v_deg.
     sum_bind (dict_get data ''visibility'' (PInt 0)) (\<lambda>v_vis.
       Inr [(''city'', v_city),
            (''country'', v_country),
            (''temperature'', v_temp),
            (''feels_like'', v_feels),
            (''humidity'', v_hum),
            (''pressure'', v_press),
            (''description'', v_descr),
            (''icon'', v_icon),
            (''wind_speed'', v_speed),
            (''wind_direction'', v_deg),
            (''visibility'', v_vis),
            (''timestamp'', PStr ts)]
     )))))))))))"

text \<open>
  \<^verbatim>\<open>_parse_weather_data\<close>: the handler catches \<^verbatim>\<open>KeyError\<close> alone and turns it into a
  \<^verbatim>\<open>ValueError\<close> that quotes the key; any other exception leaves the method as it is.
\<close>

definition msg_incomplete :: "string \<Rightarrow> string" where
  "msg_incomplete e = ''Dados da API incompletos: '' @ e"

definition parse_weather_data :: "string \<Rightarrow> pyval \<Rightarrow> py_error + pydict" where
  "parse_weather_data ts data =
     (case parse_fields ts data of
        Inl (KeyError k) \<Rightarrow> Inl (ValueError (msg_incomplete k))
      | Inl e \<Rightarrow> Inl e
      | Inr d \<Rightarrow> Inr d)"

definition msg_no_api_key :: string where
  "msg_no_api_key = ''API key do OpenWeatherMap n'' @ a_tilde @ ''o configurada''"

definition msg_not_found :: "string \<Rightarrow> string" where
  "msg_not_found cty = ''Cidade '' @ quote cty @ '' n'' @ a_tilde @ ''o encontrada''"

definition msg_invalid_key :: string where
  "msg_invalid_key = ''API key inv'' @ a_acute @ ''lida''"

definition msg_timeout :: string where
  "msg_timeout = ''Timeout ao buscar dados meteorol'' @ o_acute @ ''gicos''"

definition msg_connection :: string where
  "msg_connection = ''Erro de conex'' @ a_tilde @ ''o com a API''"

definition msg_request :: "string \<Rightarrow> string" where
  "msg_request e = ''Erro ao buscar dados: '' @ e"

text \<open>
  \<^verbatim>\<open>_fetch_from_api\<close>. The credential is checked before anything is sent; a request
  that is sent is recorded in the world. \<^verbatim>\<open>raise_for_status\<close> raises for a status
  from 400 to 599.
\<close>

definition build_params :: "weather_service \<Rightarrow> string \<Rightarrow> string option \<Rightarrow> query_params" where
  "build_params self cty ctry =
     \<lparr>q = (if truthy ctry then cty @ '','' @ or_empty ctry else cty),
      appid = or_empty (api_key self),
      units = ''metric'',
      lang = ''pt_br''\<rparr>"

definition fetch_from_api ::
  "weather_service \<Rightarrow> env \<Rightarrow> world \<Rightarrow> string \<Rightarrow> string option \<Rightarrow> (py_error + pydict) \<times> world"
where
  "fetch_from_api self e w cty ctry =
     (if \<not> truthy (api_key self) then (Inl (ValueError msg_no_api_key), w)
      else
        let params = build_params self cty ctry;
            w' = w\<lparr>requests := requests w @ [params]\<rparr>
        in (case requests_get e (base_url self) params of
              Timeout \<Rightarrow> Inl (ValueError msg_timeout)
            | ConnectionError \<Rightarrow> Inl (ValueError msg_connection)
            | RequestException m \<Rightarrow> Inl (ValueError (msg_request m))
            | Response r \<Rightarrow>
                if status_code r = 404 then Inl (ValueError (msg_not_found cty))
                else if status_code r = 401 then Inl (ValueError msg_invalid_key)
                else if 400 \<le> status_code r \<and> status_code r < 600
                  then Inl (ValueError (msg_request (http_error r)))
                else (case json_body r of
                        Inl m \<Rightarrow> Inl (ValueError (msg_request m))
                      | Inr data \<Rightarrow> parse_weather_data (isoformat e (now w)) data),
            w'))"

text \<open>
  \<^verbatim>\<open>get_weather\<close>. The cache and the queue keep copies, so the \<^verbatim>\<open>cached\<close> flag set
  on the returned dictionary reaches neither.
\<close>

definition get_weather ::
  "weather_service \<Rightarrow> env \<Rightarrow> world \<Rightarrow> string \<Rightarrow> string option \<Rightarrow> string option \<Rightarrow> string option
     \<Rightarrow> (py_error + pydict) \<times> world"
where
  "get_weather self e w cty ctry ip ua =
     (let cache_key = make_cache_key (lower e) cty ctry;
          cached_data = cache_get w cache_key
      in if cached_data \<noteq> None \<and> cached_data \<noteq> Some []
         then (Inr (setitem (the cached_data) ''cached'' (PBool True)), w)
         else
           (case fetch_from_api self e w cty ctry of
              (Inl err, w1) \<Rightarrow> (Inl err, w1)
            | (Inr weather_data, w1) \<Rightarrow>
                let w2 = cache_set w1 cache_key weather_data (cache_timeout self);
                    w3 = (if truthy ip
                          then w2\<lparr>queue := queue w2 @ [SaveWeatherQuery cty ctry weather_data ip ua]\<rparr>
                          else w2)
                in (Inr (setitem weather_data ''cached'' (PBool False)), w3)))"

section \<open>models.py: the WeatherQuery table\<close>

text \<open>
  The columns of the model, in the order declared, after the automatic primary key:
  the class of each, whether it is declared \<^verbatim>\<open>null=True\<close>, and its declared
  \<^verbatim>\<open>default\<close>. \<^verbatim>\<open>query_timestamp\<close> is \<^verbatim>\<open>auto_now_add\<close>: the table sets it on insertion.
\<close>

record field_spec =
  kind :: field_kind
  nullable :: bool
  declared_default :: "pyval option"

definition WeatherQuery_fields :: "(string \<times> field_spec) list" where
  "WeatherQuery_fields =
     [(''id'', \<lparr>kind = AutoField, nullable = False, declared_default = None\<rparr>),
      (''city'', \<lparr>kind = CharField, nullable = False, declared_default = None\<rparr>),
      (''country'', \<lparr>kind = CharField, nullable = False, declared_default = None\<rparr>),
      (''temperature'', \<lparr>kind = FloatField, nullable = False, declared_default = None\<rparr>),
      (''feels_like'', \<lparr>kind = FloatField, nullable = False, declared_default = None\<rparr>),
      (''humidity'', \<lparr>kind = IntegerField, nullable = False, declared_default = None\<rparr>),
      (''pressure'', \<lparr>kind = IntegerField, nullable = False, declared_default = None\<rparr>),
      (''description'', \<lparr>kind = CharField, nullable = False, declared_default = None\<rparr>),
      (''icon'', \<lparr>kind = CharField, nullable = False, declared_default = None\<rparr>),
      (''wind_speed'', \<lparr>kind = FloatField, nullable = False, declared_default = Some (PInt 0)\<rparr>),
      (''wind_direction'',
         \<lparr>kind = IntegerField, nullable = False, declared_default = Some (PInt 0)\<rparr>),
      (''visibility'', \<lparr>kind = IntegerField, nullable = False, declared_default = Some (PInt 0)\<rparr>),
      (''uv_index'', \<lparr>kind = FloatField, nullable = False, declared_default = Some (PInt 0)\<rparr>),
      (''query_timestamp'',
         \<lparr>kind = DateTimeField, nullable = False, declared_default = None\<rparr>),
      (''ip_address'',
         \<lparr>kind = GenericIPAddressField, nullable = True, declared_default = None\<rparr>),
      (''user_agent'', \<lparr>kind = TextField, nullable = False, declared_default = None\<rparr>)]"

text \<open>The columns that \<^verbatim>\<open>create\<close> takes from its caller; the table fills the other two.\<close>

definition writable_fields :: "(string \<times> field_spec) list" where
  "writable_fields =
     filter (\<lambda>(name, f). kind f \<noteq> AutoField \<and> kind f \<noteq> DateTimeField) WeatherQuery_fields"

text \<open>
  The value of a column that the caller does not pass: the declared default, else the
  empty string for a text column that is not nullable, else \<^verbatim>\<open>None\<close>.
\<close>

definition field_default :: "field_spec \<Rightarrow> pyval" where
  "field_default f =
     (case declared_default f of
        Some v \<Rightarrow> v
      | None \<Rightarrow>
          if (kind f = CharField \<or> kind f = TextField) \<and> \<not> nullable f then PStr []
          else PNone)"

definition initial_value :: "pydict \<Rightarrow> string \<times> field_spec \<Rightarrow> pyval" where
  "initial_value kwargs nf = (case map_of kwargs (fst nf) of Some v \<Rightarrow> v | None \<Rightarrow> field_default (snd nf))"

text \<open>A value is converted by its column's class before the row is written; \<^verbatim>\<open>None\<close> is kept.\<close>

definition prep_value :: "env \<Rightarrow> field_kind \<Rightarrow> pyval \<Rightarrow> py_error + pyval" where
  "prep_value e k v = (if v = PNone then Inr PNone else get_prep_value e k v)"

fun prep_columns :: "env \<Rightarrow> pydict \<Rightarrow> (string \<times> field_spec) list \<Rightarrow> py_error + pydict" where
  "prep_columns e kwargs [] = Inr []"
| "prep_columns e kwargs (nf # rest) =
     sum_bind (prep_value e (kind (snd nf)) (initial_value kwargs nf)) (\<lambda>v.
     sum_bind (prep_columns e kwargs rest) (\<lambda>vs. Inr ((fst nf, v) # vs)))"

text \<open>The first column that is not nullable and would hold \<^verbatim>\<open>NULL\<close>, if there is one.\<close>

definition not_null_violation :: "pydict \<Rightarrow> string option" where
  "not_null_violation vals =
     (case filter (\<lambda>(name, f). \<not> nullable f \<and> map_of vals name = Some PNone) writable_fields of
        [] \<Rightarrow> None
      | (name, f) # _ \<Rightarrow> Some name)"

definition column :: "pydict \<Rightarrow> string \<Rightarrow> pyval" where
  "column vals name = get_default vals name PNone"

text \<open>
  \<^verbatim>\<open>WeatherQuery.objects.create(**kwargs)\<close>: a keyword that is no column raises
  \<^verbatim>\<open>TypeError\<close>; the values are converted; the insertion fails with \<^verbatim>\<open>IntegrityError\<close>
  when a column that is not nullable would hold \<^verbatim>\<open>NULL\<close>; otherwise the row is appended
  with the next primary key and the current instant.
\<close>

definition objects_create :: "env \<Rightarrow> world \<Rightarrow> pydict \<Rightarrow> (py_error + weather_query) \<times> world" where
  "objects_create e w kwargs =
     (if \<not> list_all (\<lambda>(k, v). k \<in> set (map fst WeatherQuery_fields)) kwargs
      then (Inl TypeError, w)
      else
        (case prep_columns e kwargs writable_fields of
           Inl err \<Rightarrow> (Inl err, w)
         | Inr vals \<Rightarrow>
             (case not_null_violation vals of
                Some name \<Rightarrow> (Inl (IntegrityError name), w)
              | None \<Rightarrow>
                  let r = \<lparr>row_id = next_id w,
                           city = column vals ''city'',
                           country = column vals ''country'',
                           temperature = column vals ''temperature'',
                           feels_like = column vals ''feels_like'',
                           humidity = column vals ''humidity'',
                           pressure = column vals ''pressure'',
                           description = column vals ''description'',
                           icon = column vals ''icon'',
                           wind_speed = column vals ''wind_speed'',
                           wind_direction = column vals ''wind_direction'',
                           visibility = column vals ''visibility'',
                           uv_index = column vals ''uv_index'',
                           query_timestamp = now w,
                           ip_address = column vals ''ip_address'',
                           user_agent = column vals ''user_agent''\<rparr>
                  in (Inr r, w\<lparr>table := table w @ [r], next_id := Suc (next_id w)\<rparr>))))"

text \<open>
  \<^verbatim>\<open>WeatherQuery.objects.order_by(expr)\<close>: the name in the expression (after a leading
  \<^verbatim>\<open>-\<close>) must be a column of the model or \<^verbatim>\<open>pk\<close>, or \<^verbatim>\<open>FieldError\<close> is raised; the
  database orders the rows.
\<close>

definition ordering_name :: "string \<Rightarrow> string" where
  "ordering_name expr = (if take 1 expr = ''-'' then drop 1 expr else expr)"

definition order_by :: "env \<Rightarrow> string \<Rightarrow> weather_query list \<Rightarrow> py_error + weather_query list" where
  "order_by e expr rs =
     (if ordering_name expr \<in> set (map fst WeatherQuery_fields) \<or> ordering_name expr = ''pk''
      then Inr (db_order e expr rs)
      else Inl (FieldError (ordering_name expr)))"

section \<open>services.py: the history query\<close>

text \<open>
  \<^verbatim>\<open>get_weather_history\<close>: the slice \<^verbatim>\<open>[:limit]\<close> of a query set raises \<^verbatim>\<open>ValueError\<close> for
  a negative bound.
\<close>

definition get_weather_history ::
  "weather_service \<Rightarrow> env \<Rightarrow> world \<Rightarrow> int option \<Rightarrow> py_error + weather_query list"
where
  "get_weather_history self e w limit =
     (let lim = (case limit of None \<Rightarrow> 10 | Some l \<Rightarrow> l)
      in sum_bind (order_by e ''-query_timestamp'' (table w)) (\<lambda>ordered.
           if lim < 0 then Inl (ValueError ''Negative indexing is not supported.'')
           else Inr (take (nat lim) ordered)))"

section \<open>tasks.py: the background jobs\<close>

text \<open>
  \<^verbatim>\<open>save_weather_query_async\<close>: an exception of \<^verbatim>\<open>create\<close> is logged and raised again,
  before the clean-up job is queued.
\<close>

definition save_weather_query_async ::
  "env \<Rightarrow> world \<Rightarrow> string \<Rightarrow> string option \<Rightarrow> pydict \<Rightarrow> string option \<Rightarrow> string option
     \<Rightarrow> (py_error + nat) \<times> world"
where
  "save_weather_query_async e w cty ctry weather_data ip ua =
     (case objects_create e w
             [(''city'', PStr cty),
              (''country'', PStr (or_empty ctry)),
              (''temperature'', get_default weather_data ''temperature'' (PInt 0)),
              (''description'', get_default weather_data ''description'' (PStr [])),
              (''ip_address'', PStr (or_empty ip)),
              (''user_agent'', PStr (or_empty ua))] of
        (Inl err, w1) \<Rightarrow> (Inl err, w1)
      | (Inr query, w1) \<Rightarrow> (Inr (row_id query), w1\<lparr>queue := queue w1 @ [CleanupOldQueries]\<rparr>))"

text \<open>
  \<^verbatim>\<open>cleanup_old_queries\<close>: the primary keys of the first 100 rows in the order asked
  for are kept, every other row is deleted, and the number deleted is returned.
\<close>

definition cleanup_old_queries :: "env \<Rightarrow> world \<Rightarrow> (py_error + nat) \<times> world" where
  "cleanup_old_queries e w =
     (case order_by e ''-created_at'' (table w) of
        Inl err \<Rightarrow> (Inl err, w)
      | Inr ordered \<Rightarrow>
          let keep_ids = map row_id (take 100 ordered);
              kept = filter (\<lambda>r. row_id r \<in> set keep_ids) (table w);
              deleted_count = length (table w) - length kept
          in (Inr deleted_count, w\<lparr>table := kept\<rparr>))"

section \<open>views.py: the endpoints\<close>

record request =
  GET :: "string \<rightharpoonup> string"
  HTTP_X_FORWARDED_FOR :: "string option"
  REMOTE_ADDR :: "string option"
  HTTP_USER_AGENT :: "string option"

record response =
  status :: nat
  data :: pyval

definition get_client_ip :: "request \<Rightarrow> string option" where
  "get_client_ip req =
     (if truthy (HTTP_X_FORWARDED_FOR req)
      then Some (takeWhile (\<lambda>c. c \<noteq> CHR '','') (or_empty (HTTP_X_FORWARDED_FOR req)))
      else REMOTE_ADDR req)"

definition msg_invalid_params :: string where
  "msg_invalid_params = ''Par'' @ a_circ @ ''metros inv'' @ a_acute @ ''lidos''"

definition msg_internal :: string where
  "msg_internal = ''Erro interno do servidor''"

definition msg_limit_positive :: string where
  "msg_limit_positive = ''Limit deve ser positivo''"

definition msg_limit_number :: string where
  "msg_limit_number = ''Limit deve ser um n'' @ u_acute @ ''mero''"

definition error_body :: "string \<Rightarrow> pyval" where
  "error_body m = PDict [(''error'', PStr m)]"

text \<open>
  The two handlers of the lookup view: a \<^verbatim>\<open>ValueError\<close> becomes a 400 with its text,
  any other exception a 500 with a fixed text.
\<close>

fun except_response :: "py_error \<Rightarrow> response" where
  "except_response (ValueError m) = \<lparr>status = 400, data = error_body m\<rparr>"
| "except_response err = \<lparr>status = 500, data = error_body msg_internal\<rparr>"

text \<open>
  The body of the lookup view \<^verbatim>\<open>views.get_weather\<close>, for a request that the throttling
  and rate-limiting decorators have let through.
\<close>

definition get_weather_view :: "env \<Rightarrow> world \<Rightarrow> request \<Rightarrow> response \<times> world" where
  "get_weather_view e w req =
     (case request_serializer e (GET req) of
        Inl errors \<Rightarrow>
          (\<lparr>status = 400,
            data = PDict [(''error'', PStr msg_invalid_params), (''details'', errors)]\<rparr>, w)
      | Inr (cty, ctry) \<Rightarrow>
          let client_ip = get_client_ip req;
              ua = (case HTTP_USER_AGENT req of None \<Rightarrow> Some [] | Some u \<Rightarrow> Some u);
              weather_svc = WeatherService e
          in (case get_weather weather_svc e w cty ctry client_ip ua of
                (Inl err, w1) \<Rightarrow> (except_response err, w1)
              | (Inr result, w1) \<Rightarrow>
                  (case response_serializer e result of
                     Inl err \<Rightarrow> (except_response err, w1)
                   | Inr body \<Rightarrow> (\<lparr>status = 200, data = body\<rparr>, w1))))"

text \<open>
  The history view. \<open>Inl\<close> in \<open>parsed\<close> is a response returned early; every exception
  of the rest becomes a 500.
\<close>

definition get_history :: "env \<Rightarrow> world \<Rightarrow> request \<Rightarrow> response" where
  "get_history e w req =
     (let limit_param = GET req ''limit'';
          parsed =
            (if truthy limit_param then
               (case py_int e (or_empty limit_param) of
                  None \<Rightarrow> Inl \<lparr>status = 400, data = error_body msg_limit_number\<rparr>
                | Some l \<Rightarrow>
                    if l \<le> 0 then Inl \<lparr>status = 400, data = error_body msg_limit_positive\<rparr>
                    else Inr (Some (if l > 100 then 100 else l)))
             else Inr None)
      in case parsed of
           Inl resp \<Rightarrow> resp
         | Inr limit \<Rightarrow>
             (case get_weather_history (WeatherService e) e w limit of
                Inl err \<Rightarrow> \<lparr>status = 500, data = error_body msg_internal\<rparr>
              | Inr history \<Rightarrow> \<lparr>status = 200, data = PList (map (query_serializer e) history)\<rparr>))"

section \<open>A concrete environment\<close>

text \<open>
  An environment to run the model in: lower-casing of the ASCII letters, a provider that
  answers every request with one fixed payload, a database that returns the newest row
  first, and \<^verbatim>\<open>int\<close> on plain decimal strings.
\<close>

definition ascii_lower :: "string \<Rightarrow> string" where
  "ascii_lower s =
     map (\<lambda>c. case map_of (zip ''ABCDEFGHIJKLMNOPQRSTUVWXYZ'' ''abcdefghijklmnopqrstuvwxyz'') c of
                 Some l \<Rightarrow> l
               | None \<Rightarrow> c) s"

definition sao_paulo :: string where
  "sao_paulo = ''S'' @ a_tilde @ ''o Paulo''"

definition sample_payload :: pyval where
  "sample_payload =
     PDict [(''name'', PStr sao_paulo),
            (''sys'', PDict [(''country'', PStr ''BR'')]),
            (''main'', PDict [(''temp'', PFloat (51 / 2)),
                              (''feels_like'', PFloat (136 / 5)),
                              (''humidity'', PInt 65),
                              (''pressure'', PInt 1013)]),
            (''weather'', PList [PDict [(''description'', PStr ''poucas nuvens''),
                                         (''icon'', PStr ''02d'')]]),
            (''wind'', PDict [(''speed'', PFloat (7 / 2)), (''deg'', PInt 180)]),
            (''visibility'', PInt 10000)]"

definition digit_of :: "char \<Rightarrow> nat" where
  "digit_of c = (of_char c :: nat) - 48"

definition is_digit :: "char \<Rightarrow> bool" where
  "is_digit c = (48 \<le> (of_char c :: nat) \<and> (of_char c :: nat) \<le> 57)"

definition decimal :: "string \<Rightarrow> int option" where
  "decimal s =
     (let body = (if take 1 s = ''-'' then drop 1 s else s);
          n = int (foldl (\<lambda>a c. 10 * a + digit_of c) 0 body)
      in if body \<noteq> [] \<and> list_all is_digit body
         then Some (if take 1 s = ''-'' then - n else n)
         else None)"

definition newest_first :: "weather_query list \<Rightarrow> weather_query list" where
  "newest_first rs = rev (sort_key query_timestamp rs)"

definition sample_env :: env where
  "sample_env =
     \<lparr>lower = ascii_lower,
      isoformat = (\<lambda>t. ''2025-01-01T00:00:00+00:00''),
      requests_get = (\<lambda>url params.
        Response \<lparr>status_code = 200, http_error = [], json_body = Inr sample_payload\<rparr>),
      OPENWEATHER_API_KEY = Some ''secret'',
      get_prep_value = (\<lambda>k v. Inr v),
      db_order = (\<lambda>expr rs. newest_first rs),
      py_int = decimal,
      request_serializer = (\<lambda>g.
        case g ''city'' of None \<Rightarrow> Inl (PDict []) | Some c \<Rightarrow> Inr (c, g ''country'')),
      response_serializer = (\<lambda>d. Inr (PDict d)),
      query_serializer = (\<lambda>r. PInt (int (row_id r)))\<rparr>"

definition empty_world :: world where
  "empty_world =
     \<lparr>cache = Map.empty, now = 0, queue = [], requests = [], table = [], next_id = 1\<rparr>"


text \<open>
  The sample payload with an empty \<^verbatim>\<open>weather\<close> array, a provider that answers with it,
  and a request for one city without a country.
\<close>

definition payload_empty_weather :: pyval where
  "payload_empty_weather =
     PDict [(''name'', PStr ''Lisboa''),
            (''sys'', PDict [(''country'', PStr ''PT'')]),
            (''main'', PDict [(''temp'', PFloat (51 / 2)),
                              (''feels_like'', PFloat (136 / 5)),
                              (''humidity'', PInt 65),
                              (''pressure'', PInt 1013)]),
            (''weather'', PList []),
            (''wind'', PDict [(''speed'', PFloat (7 / 2)), (''deg'', PInt 180)]),
            (''visibility'', PInt 10000)]"

definition answering :: "int \<Rightarrow> pyval \<Rightarrow> env" where
  "answering code payload =
     sample_env\<lparr>requests_get := (\<lambda>url params.
       Response \<lparr>status_code = code, http_error = ''HTTP error'', json_body = Inr payload\<rparr>)\<rparr>"

definition request_for :: "string \<Rightarrow> request" where
  "request_for cty =
     \<lparr>GET = [''city'' \<mapsto> cty],
      HTTP_X_FORWARDED_FOR = None,
      REMOTE_ADDR = Some ''203.0.113.7'',
      HTTP_USER_AGENT = Some ''curl''\<rparr>"

text \<open>
  A record as the service stores it, a world whose cache holds it for Lisboa until the
  instant 600, an environment without a credential, and a provider that times out.
\<close>

definition lisboa_record :: pydict where
  "lisboa_record =
     [(''city'', PStr ''Lisboa''),
      (''country'', PStr ''PT''),
      (''temperature'', PFloat (37 / 2)),
      (''feels_like'', PFloat 18),
      (''humidity'', PInt 70),
      (''pressure'', PInt 1020),
      (''description'', PStr ''nublado''),
      (''icon'', PStr ''04d''),
      (''wind_speed'', PFloat (5 / 2)),
      (''wind_direction'', PInt 0),
      (''visibility'', PInt 0),
      (''timestamp'', PStr ''2025-01-01T00:00:00+00:00'')]"

definition warm_world :: world where
  "warm_world = empty_world\<lparr>cache := [''weather:lisboa'' \<mapsto> (lisboa_record, 600)], now := 30\<rparr>"

definition unconfigured :: env where
  "unconfigured = sample_env\<lparr>OPENWEATHER_API_KEY := None\<rparr>"

definition timing_out :: env where
  "timing_out = sample_env\<lparr>requests_get := (\<lambda>url params. Timeout)\<rparr>"

text \<open>
  The record parsed from the sample payload, and the world after a first lookup of
  Sao Paulo, BR in the empty world.
\<close>

definition sample_record :: pydict where
  "sample_record =
     [(''city'', PStr sao_paulo),
      (''country'', PStr ''BR''),
      (''temperature'', PFloat (51 / 2)),
      (''feels_like'', PFloat (136 / 5)),
      (''humidity'', PInt 65),
      (''pressure'', PInt 1013),
      (''description'', PStr ''poucas nuvens''),
      (''icon'', PStr ''02d''),
      (''wind_speed'', PFloat (7 / 2)),
      (''wind_direction'', PInt 180),
      (''visibility'', PInt 10000),
      (''timestamp'', PStr ''2025-01-01T00:00:00+00:00'')]"

definition after_first_lookup :: world where
  "after_first_lookup =
     snd (get_weather (WeatherService sample_env) sample_env empty_world sao_paulo (Some ''BR'')
            (Some ''203.0.113.7'') (Some ''curl''))"

definition sao_paulo_lower_case :: string where
  "sao_paulo_lower_case = ''s'' @ a_tilde @ ''o paulo''"

text \<open>A history table of \<open>n\<close> rows, created one per instant, oldest first.\<close>

definition sample_row :: "nat \<Rightarrow> weather_query" where
  "sample_row i =
     \<lparr>row_id = i,
      city = PStr ''Lisboa'',
      country = PStr ''PT'',
      temperature = PFloat (37 / 2),
      feels_like = PFloat 18,
      humidity = PInt 70,
      pressure = PInt 1020,
      description = PStr ''nublado'',
      icon = PStr ''04d'',
      wind_speed = PInt 0,
      wind_direction = PInt 0,
      visibility = PInt 0,
      uv_index = PInt 0,
      query_timestamp = i,
      ip_address = PNone,
      user_agent = PStr []\<rparr>"

definition world_with_rows :: "nat \<Rightarrow> world" where
  "world_with_rows n = empty_world\<lparr>table := map sample_row [1..<Suc n], next_id := Suc n\<rparr>"

text \<open>A request to the history endpoint, with or without a \<^verbatim>\<open>limit\<close> parameter.\<close>

definition history_request :: "string option \<Rightarrow> request" where
  "history_request l =
     \<lparr>GET = (\<lambda>k. if k = ''limit'' then l else None),
      HTTP_X_FORWARDED_FOR = None,
      REMOTE_ADDR = Some ''203.0.113.7'',
      HTTP_USER_AGENT = Some ''curl''\<rparr>"

text \<open>The answer of the history endpoint that lists the given rows.\<close>

definition history_ok :: "env \<Rightarrow> weather_query list \<Rightarrow> response" where
  "history_ok e history = \<lparr>status = 200, data = PList (map (query_serializer e) history)\<rparr>"

text \<open>Rows in the order of their creation instants, the newest first.\<close>

definition newest_to_oldest :: "weather_query list \<Rightarrow> bool" where
  "newest_to_oldest rs = sorted_wrt (\<lambda>a b. query_timestamp b \<le> query_timestamp a) rs"

section \<open>The cache key\<close>

text \<open>
  Claim C4. The cache key is built from the lower-cased city and, when a country is
  given, the lower-cased country: two lookups whose cities (and countries) agree after
  lower-casing get the same key, so the two spellings of Sao Paulo (capitalised and
  lower-case, both with the tilde) collide; and for
  every city the key with a country differs from the key without one. A country is
  given when it is a non-empty string, as the two-letter codes are.
\<close>

theorem make_cache_key_case_folded:
  "(k \<noteq> [] \<longrightarrow> make_cache_key lc c (Some k) = ''weather:'' @ lc c @ '':'' @ lc k)
   \<and> make_cache_key lc c None = ''weather:'' @ lc c
   \<and> (lc c = lc c' \<and> lc k = lc k' \<and> k \<noteq> [] \<and> k' \<noteq> []
        \<longrightarrow> make_cache_key lc c (Some k) = make_cache_key lc c' (Some k'))
   \<and> (lc c = lc c' \<longrightarrow> make_cache_key lc c None = make_cache_key lc c' None)
   \<and> (k \<noteq> [] \<longrightarrow> make_cache_key lc c (Some k) \<noteq> make_cache_key lc c None)"
  by (simp add: make_cache_key_def)

theorem make_cache_key_case_folded_witness:
  "ascii_lower sao_paulo = ascii_lower (''s'' @ a_tilde @ ''o paulo'')
   \<and> ascii_lower ''BR'' = ascii_lower ''br''
   \<and> make_cache_key ascii_lower sao_paulo (Some ''BR'')
       = ''weather:s'' @ a_tilde @ ''o paulo:br''
   \<and> make_cache_key ascii_lower sao_paulo (Some ''BR'')
       = make_cache_key ascii_lower (''s'' @ a_tilde @ ''o paulo'') (Some ''br'')
   \<and> make_cache_key ascii_lower sao_paulo None
       = make_cache_key ascii_lower (''s'' @ a_tilde @ ''o paulo'') None
   \<and> make_cache_key ascii_lower sao_paulo (Some ''BR'')
       \<noteq> make_cache_key ascii_lower sao_paulo None"
  using make_cache_key_case_folded
    [of "''BR''" ascii_lower sao_paulo "''s'' @ a_tilde @ ''o paulo''" "''br''"]
  by (simp add: make_cache_key_def ascii_lower_def sao_paulo_def a_tilde_def)

section \<open>The lookup, step by step\<close>

text \<open>What one call of the service does on a miss and on a hit, for the proofs below.\<close>

lemma fetch_from_api_world:
  "snd (fetch_from_api self e w cty ctry) =
     (if truthy (api_key self) then w\<lparr>requests := requests w @ [build_params self cty ctry]\<rparr> else w)"
  by (simp add: fetch_from_api_def Let_def)

lemma fetch_from_api_no_key:
  "\<not> truthy (api_key self) \<Longrightarrow> fetch_from_api self e w cty ctry = (Inl (ValueError msg_no_api_key), w)"
  by (simp add: fetch_from_api_def)

lemma get_weather_miss_error:
  assumes "cache_get w (make_cache_key (lower e) cty ctry) = None"
    and "fetch_from_api self e w cty ctry = (Inl err, w')"
  shows "get_weather self e w cty ctry ip ua = (Inl err, w')"
  using assms by (simp add: get_weather_def Let_def)

lemma get_weather_miss_ok:
  assumes "cache_get w (make_cache_key (lower e) cty ctry) = None"
    and "fetch_from_api self e w cty ctry = (Inr d, w')"
  shows "get_weather self e w cty ctry ip ua =
           (Inr (setitem d ''cached'' (PBool False)),
            (if truthy ip
             then (cache_set w' (make_cache_key (lower e) cty ctry) d (cache_timeout self))
                    \<lparr>queue := queue w' @ [SaveWeatherQuery cty ctry d ip ua]\<rparr>
             else cache_set w' (make_cache_key (lower e) cty ctry) d (cache_timeout self)))"
  using assms by (simp add: get_weather_def Let_def cache_set_def)

lemma get_weather_hit:
  assumes "cache_get w (make_cache_key (lower e) cty ctry) = Some d" and "d \<noteq> []"
  shows "get_weather self e w cty ctry ip ua = (Inr (setitem d ''cached'' (PBool True)), w)"
  using assms by (simp add: get_weather_def Let_def)

lemma cache_get_empty_world: "cache_get empty_world k = None"
  by (simp add: cache_get_def empty_world_def)

lemma sample_request_serializer:
  "request_serializer (answering code payload) (GET (request_for cty)) = Inr (cty, None)"
  by (simp add: answering_def sample_env_def request_for_def)

lemma answering_key: "api_key (WeatherService (answering code payload)) = Some ''secret''"
  by (simp add: WeatherService_def answering_def sample_env_def)

section \<open>Parsing the provider's payload\<close>

text \<open>
  Claim C6. Parsing a successful payload should fail with the malformed-response error
  (a \<^verbatim>\<open>ValueError\<close> naming what is missing) whenever a required field is absent. For a
  payload whose \<^verbatim>\<open>weather\<close> array is empty the description and the icon are absent, yet
  \<^verbatim>\<open>data['weather'][0]\<close> raises \<^verbatim>\<open>IndexError\<close>, which the handler for \<^verbatim>\<open>KeyError\<close> does
  not catch: the parser raises \<^verbatim>\<open>IndexError\<close> and the lookup endpoint answers 500, not
  400.
\<close>

theorem parse_weather_data_empty_weather_list:
  "parse_weather_data ts payload_empty_weather = Inl IndexError
   \<and> fst (get_weather_view (answering 200 payload_empty_weather) empty_world (request_for ''Lisboa''))
       = \<lparr>status = 500, data = error_body msg_internal\<rparr>"
proof -
  let ?e = "answering 200 payload_empty_weather"
  have p: "parse_weather_data ts payload_empty_weather = Inl IndexError" for ts
    by (simp add: parse_weather_data_def parse_fields_def sum_bind_def payload_empty_weather_def)
  have "fst (fetch_from_api (WeatherService ?e) ?e empty_world ''Lisboa'' None) = Inl IndexError"
    by (simp add: fetch_from_api_def answering_key Let_def p) (simp add: answering_def sample_env_def p)
  then obtain w' where f: "fetch_from_api (WeatherService ?e) ?e empty_world ''Lisboa'' None = (Inl IndexError, w')"
    by (metis prod.collapse)
  have "get_weather (WeatherService ?e) ?e empty_world ''Lisboa'' None ip ua = (Inl IndexError, w')" for ip ua
    by (rule get_weather_miss_error [OF cache_get_empty_world f])
  then show ?thesis
    by (simp add: p get_weather_view_def sample_request_serializer Let_def)
qed

section \<open>A cache hit\<close>

lemma map_of_setitem: "map_of (setitem d k v) = (map_of d)(k \<mapsto> v)"
  by (simp add: setitem_def AList.update_conv')

lemma cache_get_warm_world: "cache_get warm_world ''weather:lisboa'' = Some lisboa_record"
  by (simp add: cache_get_def warm_world_def empty_world_def)

lemma lisboa_key: "make_cache_key ascii_lower ''Lisboa'' None = ''weather:lisboa''"
  by (simp add: make_cache_key_def ascii_lower_def)

lemma lower_sample_env [simp]: "lower sample_env = ascii_lower" "lower unconfigured = ascii_lower"
  by (simp_all add: sample_env_def unconfigured_def)

text \<open>
  Claim C10. On a cache hit \<^verbatim>\<open>get_weather\<close> returns the stored record with only the
  \<^verbatim>\<open>cached\<close> entry changed, to true: every other entry of the returned record is the
  entry of the stored one, and the world is left as it was.
\<close>

theorem cache_hit_changes_only_cached:
  assumes "cache_get w (make_cache_key (lower e) cty ctry) = Some d" and "d \<noteq> []"
  shows "\<exists>r. get_weather self e w cty ctry ip ua = (Inr r, w)
           \<and> map_of r ''cached'' = Some (PBool True)
           \<and> (\<forall>k. k \<noteq> ''cached'' \<longrightarrow> map_of r k = map_of d k)"
  using get_weather_hit [OF assms] by (simp add: map_of_setitem)

theorem cache_hit_changes_only_cached_witness:
  "cache_get warm_world (make_cache_key (lower sample_env) ''Lisboa'' None) = Some lisboa_record
   \<and> lisboa_record \<noteq> []
   \<and> get_weather (WeatherService sample_env) sample_env warm_world ''Lisboa'' None
         (Some ''203.0.113.7'') (Some ''curl'')
       = (Inr (lisboa_record @ [(''cached'', PBool True)]), warm_world)
   \<and> map_of (lisboa_record @ [(''cached'', PBool True)]) ''city'' = map_of lisboa_record ''city''"
proof -
  have h1: "cache_get warm_world (make_cache_key (lower sample_env) ''Lisboa'' None) = Some lisboa_record"
    by (simp add: lisboa_key cache_get_warm_world)
  have h2: "lisboa_record \<noteq> []"
    by (simp add: lisboa_record_def)
  have "setitem lisboa_record ''cached'' (PBool True) = lisboa_record @ [(''cached'', PBool True)]"
    by (simp add: setitem_def lisboa_record_def)
  moreover have "map_of (lisboa_record @ [(''cached'', PBool True)]) ''city'' = map_of lisboa_record ''city''"
    by (simp add: lisboa_record_def)
  ultimately show ?thesis
    using h1 h2 cache_hit_changes_only_cached [OF h1 h2, of "WeatherService sample_env"
        "Some ''203.0.113.7''" "Some ''curl''"] get_weather_hit [OF h1 h2]
    by simp
qed

section \<open>A failed lookup\<close>

lemma fetch_from_api_frame:
  assumes "fetch_from_api self e w cty ctry = (r, w')"
  shows "cache w' = cache w \<and> queue w' = queue w \<and> table w' = table w \<and> now w' = now w
         \<and> next_id w' = next_id w"
proof -
  have "w' = snd (fetch_from_api self e w cty ctry)"
    using assms by simp
  then show ?thesis
    by (simp add: fetch_from_api_world)
qed

lemma fetch_from_api_call_failed:
  assumes "fetch_from_api self e w cty ctry = (Inl err, w')"
    and "\<not> truthy (api_key self) \<or>
         (case requests_get e (base_url self) (build_params self cty ctry) of
            Response r \<Rightarrow> (400 \<le> status_code r \<and> status_code r < 600) \<or> isl (json_body r)
          | _ \<Rightarrow> True)"
  shows "\<exists>m. err = ValueError m"
  using assms
  by (auto simp add: fetch_from_api_def Let_def isl_def split: if_splits http_outcome.splits sum.splits)

lemma timing_out_facts [simp]:
  "lower timing_out = ascii_lower"
  "requests_get timing_out = (\<lambda>url params. Timeout)"
  "api_key (WeatherService timing_out) = Some ''secret''"
  "OPENWEATHER_API_KEY timing_out = Some ''secret''"
  by (simp_all add: timing_out_def sample_env_def WeatherService_def)

lemma fetch_timing_out:
  "fetch_from_api (WeatherService timing_out) timing_out w cty ctry =
     (Inl (ValueError msg_timeout),
      w\<lparr>requests := requests w @ [build_params (WeatherService timing_out) cty ctry]\<rparr>)"
  by (simp add: fetch_from_api_def Let_def)

text \<open>
  Property X4. When the cache misses and the provider client raises, \<^verbatim>\<open>get_weather\<close>
  raises the client's exception and nothing else happens: the cache, the task queue and
  the history table are as before (the world differs only in the request that was
  sent). Whenever the failure is the call's own (no credential, a timeout, a connection
  or other transport error, a 4xx or 5xx status, a body that is not JSON) the exception
  is the \<^verbatim>\<open>ValueError\<close> that the endpoint reports as a domain error.
\<close>

theorem failed_lookup_changes_nothing:
  assumes miss: "cache_get w (make_cache_key (lower e) cty ctry) = None"
    and fail: "fetch_from_api self e w cty ctry = (Inl err, w')"
  shows "get_weather self e w cty ctry ip ua = (Inl err, w')
         \<and> cache w' = cache w \<and> queue w' = queue w \<and> table w' = table w
         \<and> ((\<not> truthy (api_key self) \<or>
              (case requests_get e (base_url self) (build_params self cty ctry) of
                 Response r \<Rightarrow> (400 \<le> status_code r \<and> status_code r < 600) \<or> isl (json_body r)
               | _ \<Rightarrow> True))
             \<longrightarrow> (\<exists>m. err = ValueError m))"
  using get_weather_miss_error [OF miss fail] fetch_from_api_frame [OF fail]
    fetch_from_api_call_failed [OF fail]
  by blast

theorem failed_lookup_changes_nothing_witness:
  "cache_get empty_world (make_cache_key (lower timing_out) ''Lisboa'' None) = None
   \<and> fetch_from_api (WeatherService timing_out) timing_out empty_world ''Lisboa'' None =
        (Inl (ValueError msg_timeout),
         empty_world\<lparr>requests := [build_params (WeatherService timing_out) ''Lisboa'' None]\<rparr>)
   \<and> get_weather (WeatherService timing_out) timing_out empty_world ''Lisboa'' None
         (Some ''203.0.113.7'') (Some ''curl'') =
        (Inl (ValueError msg_timeout),
         empty_world\<lparr>requests := [build_params (WeatherService timing_out) ''Lisboa'' None]\<rparr>)
   \<and> cache (empty_world\<lparr>requests := [build_params (WeatherService timing_out) ''Lisboa'' None]\<rparr>)
        = cache empty_world
   \<and> queue (empty_world\<lparr>requests := [build_params (WeatherService timing_out) ''Lisboa'' None]\<rparr>)
        = []"
proof -
  have miss: "cache_get empty_world (make_cache_key (lower timing_out) ''Lisboa'' None) = None"
    by (rule cache_get_empty_world)
  have fail: "fetch_from_api (WeatherService timing_out) timing_out empty_world ''Lisboa'' None =
        (Inl (ValueError msg_timeout),
         empty_world\<lparr>requests := [build_params (WeatherService timing_out) ''Lisboa'' None]\<rparr>)"
    by (simp add: fetch_timing_out) (simp add: empty_world_def)
  show ?thesis
    using miss fail
      failed_lookup_changes_nothing [OF miss fail, of "Some ''203.0.113.7''" "Some ''curl''"]
    by (simp add: empty_world_def)
qed

text \<open>
  Claim C3. A lookup that misses the cache and whose provider call fails, for any kind
  of failure, should raise a domain error (a \<^verbatim>\<open>ValueError\<close>, which the endpoint answers
  with 400) and leave the cache and the history untouched. When the provider answers
  200 with a payload whose \<^verbatim>\<open>weather\<close> array is empty, the lookup of Lisboa in the empty
  world does leave the cache, the queue and the table as they were, but the exception
  it raises is the \<^verbatim>\<open>IndexError\<close> of \<^verbatim>\<open>data['weather'][0]\<close>, which the handler for
  \<^verbatim>\<open>KeyError\<close> in the parser does not catch: no domain error, and a 500 at the endpoint.
\<close>

theorem failed_lookup_raises_index_error:
  "cache_get empty_world
      (make_cache_key (lower (answering 200 payload_empty_weather)) ''Lisboa'' None) = None
   \<and> get_weather (WeatherService (answering 200 payload_empty_weather))
         (answering 200 payload_empty_weather) empty_world ''Lisboa'' None
         (Some ''203.0.113.7'') (Some ''curl'')
       = (Inl IndexError,
          empty_world\<lparr>requests :=
            [build_params (WeatherService (answering 200 payload_empty_weather)) ''Lisboa'' None]\<rparr>)
   \<and> except_response IndexError = \<lparr>status = 500, data = error_body msg_internal\<rparr>"
proof -
  let ?e = "answering 200 payload_empty_weather"
  have p: "parse_weather_data ts payload_empty_weather = Inl IndexError" for ts
    by (simp add: parse_weather_data_def parse_fields_def sum_bind_def payload_empty_weather_def)
  have r: "requests_get ?e url params =
      Response \<lparr>status_code = 200, http_error = ''HTTP error'', json_body = Inr payload_empty_weather\<rparr>"
    for url params
    by (simp add: answering_def sample_env_def)
  have f: "fetch_from_api (WeatherService ?e) ?e empty_world ''Lisboa'' None =
      (Inl IndexError,
       empty_world\<lparr>requests := [build_params (WeatherService ?e) ''Lisboa'' None]\<rparr>)"
    by (simp add: fetch_from_api_def answering_key Let_def r p) (simp add: empty_world_def)
  show ?thesis
    by (simp add: cache_get_empty_world get_weather_miss_error [OF cache_get_empty_world f])
qed

section \<open>A first lookup and its repetition\<close>

lemma parse_fields_nonempty: "parse_fields ts payload = Inr d \<Longrightarrow> d \<noteq> []"
  by (auto simp add: parse_fields_def sum_bind_def split: sum.splits)

lemma parse_weather_data_nonempty: "parse_weather_data ts payload = Inr d \<Longrightarrow> d \<noteq> []"
  by (auto simp add: parse_weather_data_def dest: parse_fields_nonempty split: sum.splits py_error.splits)

lemma fetch_from_api_nonempty:
  "fetch_from_api self e w cty ctry = (Inr d, w') \<Longrightarrow> d \<noteq> []"
  by (auto simp add: fetch_from_api_def Let_def dest: parse_weather_data_nonempty
      split: if_splits http_outcome.splits sum.splits)

lemma get_weather_miss_cases:
  assumes miss: "cache_get w (make_cache_key (lower e) cty ctry) = None"
    and first: "get_weather self e w cty ctry ip ua = (Inr r1, w1)"
  obtains d w' where "fetch_from_api self e w cty ctry = (Inr d, w')"
    and "r1 = setitem d ''cached'' (PBool False)"
    and "cache w1 = (cache w)(make_cache_key (lower e) cty ctry \<mapsto> (d, now w + cache_timeout self))"
    and "d \<noteq> []"
proof (cases "fetch_from_api self e w cty ctry")
  case (Pair res w')
  show ?thesis
  proof (cases res)
    case (Inl err)
    with Pair get_weather_miss_error [OF miss] first show ?thesis
      by simp
  next
    case (Inr d)
    with Pair have f: "fetch_from_api self e w cty ctry = (Inr d, w')"
      by simp
    note fr = fetch_from_api_frame [OF f]
    have "r1 = setitem d ''cached'' (PBool False)"
      using get_weather_miss_ok [OF miss f, of ip ua] first by simp
    moreover have "cache w1 = (cache w)(make_cache_key (lower e) cty ctry \<mapsto> (d, now w + cache_timeout self))"
      using get_weather_miss_ok [OF miss f, of ip ua] first fr
      by (auto simp add: cache_set_def split: if_splits)
    ultimately show ?thesis
      using that f fetch_from_api_nonempty [OF f] by blast
  qed
qed

lemma parse_sample_payload: "parse_weather_data ts sample_payload = Inr (butlast sample_record @ [(''timestamp'', PStr ts)])"
  by (simp add: parse_weather_data_def parse_fields_def sum_bind_def sample_payload_def sample_record_def)

lemma sample_env_facts [simp]:
  "requests_get sample_env = (\<lambda>url params.
        Response \<lparr>status_code = 200, http_error = [], json_body = Inr sample_payload\<rparr>)"
  "api_key (WeatherService sample_env) = Some ''secret''"
  "OPENWEATHER_API_KEY sample_env = Some ''secret''"
  "isoformat sample_env = (\<lambda>t. ''2025-01-01T00:00:00+00:00'')"
  "cache_timeout (WeatherService e) = 600"
  by (simp_all add: sample_env_def WeatherService_def)

lemma fetch_sample_env:
  "fetch_from_api (WeatherService sample_env) sample_env w cty ctry =
     (Inr sample_record,
      w\<lparr>requests := requests w @ [build_params (WeatherService sample_env) cty ctry]\<rparr>)"
  by (simp add: fetch_from_api_def Let_def parse_sample_payload) (simp add: sample_record_def)

lemma sao_paulo_keys:
  "make_cache_key ascii_lower sao_paulo (Some ''BR'') = ''weather:s'' @ a_tilde @ ''o paulo:br''"
  "make_cache_key ascii_lower sao_paulo_lower_case (Some ''br'') = ''weather:s'' @ a_tilde @ ''o paulo:br''"
  by (simp_all add: make_cache_key_def ascii_lower_def sao_paulo_def sao_paulo_lower_case_def a_tilde_def)

lemma first_lookup_sample:
  "get_weather (WeatherService sample_env) sample_env empty_world sao_paulo (Some ''BR'')
      (Some ''203.0.113.7'') (Some ''curl'') =
     (Inr (sample_record @ [(''cached'', PBool False)]), after_first_lookup)"
proof -
  have miss: "cache_get empty_world (make_cache_key (lower sample_env) sao_paulo (Some ''BR'')) = None"
    by (rule cache_get_empty_world)
  have "setitem sample_record ''cached'' (PBool False) = sample_record @ [(''cached'', PBool False)]"
    by (simp add: setitem_def sample_record_def)
  then have "fst (get_weather (WeatherService sample_env) sample_env empty_world sao_paulo
      (Some ''BR'') (Some ''203.0.113.7'') (Some ''curl'')) = Inr (sample_record @ [(''cached'', PBool False)])"
    by (simp add: get_weather_miss_ok [OF miss fetch_sample_env])
  then show ?thesis
    unfolding after_first_lookup_def by (metis prod.collapse)
qed

text \<open>
  Claim C1. A first lookup (the cache has no entry for the key) that succeeds returns a
  record with \<^verbatim>\<open>cached\<close> false. A later lookup with the same cache key, in any world
  that still holds the entry and whose clock is less than 600 after the first lookup,
  returns the record with \<^verbatim>\<open>cached\<close> true and leaves the world as it is: no request is
  sent to the provider and no job is queued. From 600 on the entry has expired.
\<close>

theorem first_lookup_fresh_then_cached:
  assumes miss: "cache_get w (make_cache_key (lower e) cty ctry) = None"
    and first: "get_weather (WeatherService e) e w cty ctry ip ua = (Inr r1, w1)"
    and same_key: "make_cache_key (lower e') cty' ctry' = make_cache_key (lower e) cty ctry"
    and kept: "cache w2 (make_cache_key (lower e) cty ctry) = cache w1 (make_cache_key (lower e) cty ctry)"
  shows "map_of r1 ''cached'' = Some (PBool False)
         \<and> (now w2 < now w + 600 \<longrightarrow>
              (\<exists>r2. get_weather self' e' w2 cty' ctry' ip' ua' = (Inr r2, w2)
                    \<and> map_of r2 ''cached'' = Some (PBool True)
                    \<and> (\<forall>k. k \<noteq> ''cached'' \<longrightarrow> map_of r2 k = map_of r1 k)))
         \<and> (now w + 600 \<le> now w2 \<longrightarrow>
              cache_get w2 (make_cache_key (lower e') cty' ctry') = None)"
proof -
  let ?key = "make_cache_key (lower e) cty ctry"
  obtain d w' where r1: "r1 = setitem d ''cached'' (PBool False)"
    and c1: "cache w1 = (cache w)(?key \<mapsto> (d, now w + cache_timeout (WeatherService e)))"
    and d: "d \<noteq> []"
    using get_weather_miss_cases [OF miss first] by blast
  have c2: "cache w2 ?key = Some (d, now w + 600)"
    using kept c1 by (simp add: WeatherService_def)
  have fresh: "map_of r1 ''cached'' = Some (PBool False)"
    by (simp add: r1 map_of_setitem)
  have hit: "\<exists>r2. get_weather self' e' w2 cty' ctry' ip' ua' = (Inr r2, w2)
                    \<and> map_of r2 ''cached'' = Some (PBool True)
                    \<and> (\<forall>k. k \<noteq> ''cached'' \<longrightarrow> map_of r2 k = map_of r1 k)"
    if "now w2 < now w + 600"
  proof -
    have g: "cache_get w2 (make_cache_key (lower e') cty' ctry') = Some d"
      using that c2 by (simp add: cache_get_def same_key)
    show ?thesis
      using get_weather_hit [OF g d] by (simp add: map_of_setitem r1)
  qed
  have expired: "cache_get w2 (make_cache_key (lower e') cty' ctry') = None"
    if "now w + 600 \<le> now w2"
    using that c2 by (simp add: cache_get_def same_key)
  show ?thesis
    using fresh hit expired by blast
qed

theorem first_lookup_fresh_then_cached_witness:
  "cache_get empty_world (make_cache_key (lower sample_env) sao_paulo (Some ''BR'')) = None
   \<and> get_weather (WeatherService sample_env) sample_env empty_world sao_paulo (Some ''BR'')
        (Some ''203.0.113.7'') (Some ''curl'') =
       (Inr (sample_record @ [(''cached'', PBool False)]), after_first_lookup)
   \<and> make_cache_key (lower sample_env) sao_paulo_lower_case (Some ''br'')
       = make_cache_key (lower sample_env) sao_paulo (Some ''BR'')
   \<and> now (after_first_lookup\<lparr>now := 599\<rparr>) < now empty_world + 600
   \<and> map_of (sample_record @ [(''cached'', PBool False)]) ''cached'' = Some (PBool False)
   \<and> (\<exists>r2. get_weather (WeatherService sample_env) sample_env (after_first_lookup\<lparr>now := 599\<rparr>)
               sao_paulo_lower_case (Some ''br'') (Some ''203.0.113.7'') (Some ''curl'')
             = (Inr r2, after_first_lookup\<lparr>now := 599\<rparr>)
           \<and> map_of r2 ''cached'' = Some (PBool True)
           \<and> map_of r2 ''city'' = Some (PStr sao_paulo))"
proof -
  have miss: "cache_get empty_world (make_cache_key (lower sample_env) sao_paulo (Some ''BR'')) = None"
    by (rule cache_get_empty_world)
  have same_key: "make_cache_key (lower sample_env) sao_paulo_lower_case (Some ''br'')
       = make_cache_key (lower sample_env) sao_paulo (Some ''BR'')"
    by (simp add: sao_paulo_keys)
  have kept: "cache (after_first_lookup\<lparr>now := 599\<rparr>) (make_cache_key (lower sample_env) sao_paulo (Some ''BR''))
      = cache after_first_lookup (make_cache_key (lower sample_env) sao_paulo (Some ''BR''))"
    by simp
  have in_time: "now (after_first_lookup\<lparr>now := 599\<rparr>) < now empty_world + 600"
    by (simp add: empty_world_def)
  have city: "map_of (sample_record @ [(''cached'', PBool False)]) ''city'' = Some (PStr sao_paulo)"
    by (simp add: sample_record_def)
  show ?thesis
    using first_lookup_fresh_then_cached [OF miss first_lookup_sample same_key kept,
        of "WeatherService sample_env" "Some ''203.0.113.7''" "Some ''curl''"]
      miss first_lookup_sample same_key in_time city
    by auto
qed

section \<open>Provider errors at the endpoint\<close>



lemma answering_facts [simp]:
  "lower (answering code payload) = ascii_lower"
  "requests_get (answering code payload) = (\<lambda>url params.
       Response \<lparr>status_code = code, http_error = ''HTTP error'', json_body = Inr payload\<rparr>)"
  "OPENWEATHER_API_KEY (answering code payload) = Some ''secret''"
  by (simp_all add: answering_def sample_env_def)




section \<open>A missing credential\<close>

lemma unconfigured_facts [simp]:
  "OPENWEATHER_API_KEY unconfigured = None"
  "api_key (WeatherService unconfigured) = None"
  by (simp_all add: unconfigured_def WeatherService_def)

lemma unconfigured_request_serializer:
  "request_serializer unconfigured (GET (request_for cty)) = Inr (cty, None)"
  by (simp add: unconfigured_def sample_env_def request_for_def)

lemma unconfigured_response_serializer: "response_serializer unconfigured d = Inr (PDict d)"
  by (simp add: unconfigured_def sample_env_def)

text \<open>
  With the Lisboa record in the cache and no credential configured, the service returns
  the cached record and the endpoint answers 200.
\<close>

theorem missing_credential_cache_hit_counterexample:
  "OPENWEATHER_API_KEY unconfigured = None
   \<and> get_weather (WeatherService unconfigured) unconfigured warm_world ''Lisboa'' None
         (Some ''203.0.113.7'') (Some ''curl'')
       = (Inr (lisboa_record @ [(''cached'', PBool True)]), warm_world)
   \<and> get_weather_view unconfigured warm_world (request_for ''Lisboa'')
       = (\<lparr>status = 200, data = PDict (lisboa_record @ [(''cached'', PBool True)])\<rparr>, warm_world)"
proof -
  have h1: "cache_get warm_world (make_cache_key (lower unconfigured) ''Lisboa'' None) = Some lisboa_record"
    by (simp add: lisboa_key cache_get_warm_world)
  have h2: "lisboa_record \<noteq> []"
    by (simp add: lisboa_record_def)
  have s: "setitem lisboa_record ''cached'' (PBool True) = lisboa_record @ [(''cached'', PBool True)]"
    by (simp add: setitem_def lisboa_record_def)
  have g: "get_weather (WeatherService unconfigured) unconfigured warm_world ''Lisboa'' None ip ua
       = (Inr (lisboa_record @ [(''cached'', PBool True)]), warm_world)" for ip ua
    using get_weather_hit [OF h1 h2] by (simp add: s)
  show ?thesis
    by (simp add: g get_weather_view_def unconfigured_request_serializer
        unconfigured_response_serializer Let_def)
qed

text \<open>
  Claim C9, as the code has it. The credential is checked in \<^verbatim>\<open>_fetch_from_api\<close>, after
  the cache: a lookup that hits the cache succeeds without a credential (the
  counterexample). For every lookup that misses the cache, with any city and country,
  a missing credential makes the service raise the configuration \<^verbatim>\<open>ValueError\<close> with the
  world unchanged, so before any request is sent and whatever the provider would
  answer; the endpoint, given parameters that its serializer accepts, answers 400 with
  that text.
\<close>

theorem missing_credential_on_miss:
  assumes miss: "cache_get w (make_cache_key (lower e) cty ctry) = None"
  shows "(\<not> truthy (api_key self) \<longrightarrow>
            get_weather self e w cty ctry ip ua = (Inl (ValueError msg_no_api_key), w)
          \<and> get_weather self (e\<lparr>requests_get := provider\<rparr>) w cty ctry ip ua
              = (Inl (ValueError msg_no_api_key), w))
       \<and> (\<not> truthy (OPENWEATHER_API_KEY e) \<and> request_serializer e (GET req) = Inr (cty, ctry) \<longrightarrow>
            get_weather_view e w req = (\<lparr>status = 400, data = error_body msg_no_api_key\<rparr>, w))"
proof -
  have svc: "get_weather self' e' w cty ctry ip' ua' = (Inl (ValueError msg_no_api_key), w)"
    if k: "\<not> truthy (api_key self')" and l: "lower e' = lower e" for self' e' ip' ua'
  proof -
    have m: "cache_get w (make_cache_key (lower e') cty ctry) = None"
      using miss l by simp
    show ?thesis
      by (rule get_weather_miss_error [OF m fetch_from_api_no_key [OF k]])
  qed
  have view: "get_weather_view e w req = (\<lparr>status = 400, data = error_body msg_no_api_key\<rparr>, w)"
    if k: "\<not> truthy (OPENWEATHER_API_KEY e)" and v: "request_serializer e (GET req) = Inr (cty, ctry)"
  proof -
    have "\<not> truthy (api_key (WeatherService e))"
      using k by (simp add: WeatherService_def)
    then show ?thesis
      by (simp add: get_weather_view_def v Let_def svc)
  qed
  show ?thesis
    using svc [of self e] svc [of self "e\<lparr>requests_get := provider\<rparr>"] view by simp
qed

theorem missing_credential_on_miss_witness:
  "cache_get empty_world (make_cache_key (lower unconfigured) ''Lisboa'' None) = None
   \<and> \<not> truthy (api_key (WeatherService unconfigured))
   \<and> \<not> truthy (OPENWEATHER_API_KEY unconfigured)
   \<and> request_serializer unconfigured (GET (request_for ''Lisboa'')) = Inr (''Lisboa'', None)
   \<and> get_weather (WeatherService unconfigured) unconfigured empty_world ''Lisboa'' None
        (Some ''203.0.113.7'') (Some ''curl'') = (Inl (ValueError msg_no_api_key), empty_world)
   \<and> get_weather (WeatherService unconfigured) (unconfigured\<lparr>requests_get := (\<lambda>url params. Timeout)\<rparr>)
        empty_world ''Lisboa'' None (Some ''203.0.113.7'') (Some ''curl'')
       = (Inl (ValueError msg_no_api_key), empty_world)
   \<and> get_weather_view unconfigured empty_world (request_for ''Lisboa'')
       = (\<lparr>status = 400, data = error_body msg_no_api_key\<rparr>, empty_world)"
  using missing_credential_on_miss [OF cache_get_empty_world,
      where e = unconfigured and cty = "''Lisboa''" and ctry = None
        and self = "WeatherService unconfigured" and ip = "Some ''203.0.113.7''"
        and ua = "Some ''curl''" and provider = "\<lambda>url params. Timeout"
        and req = "request_for ''Lisboa''"]
  by (simp add: cache_get_empty_world unconfigured_request_serializer)

section \<open>The clean-up job\<close>

lemma created_at_is_no_field:
  "order_by e ''-created_at'' rs = Inl (FieldError ''created_at'')"
  by (simp add: order_by_def ordering_name_def WeatherQuery_fields_def)

text \<open>
  Claim C2. The clean-up job should keep the 100 rows created last, delete the rest
  and return the number deleted. It orders by \<^verbatim>\<open>created_at\<close>, which is no column of
  \<^verbatim>\<open>WeatherQuery\<close> (the creation instant is \<^verbatim>\<open>query_timestamp\<close>): in every world the job
  raises \<^verbatim>\<open>FieldError\<close>, returns no count and deletes nothing, so a table of 150 rows
  keeps its 150 rows.
\<close>

theorem cleanup_old_queries_raises_field_error:
  "cleanup_old_queries e w = (Inl (FieldError ''created_at''), w)
   \<and> length (table (world_with_rows 150)) = 150
   \<and> cleanup_old_queries e (world_with_rows 150)
       = (Inl (FieldError ''created_at''), world_with_rows 150)"
  by (simp add: cleanup_old_queries_def created_at_is_no_field world_with_rows_def)

section \<open>The job that records a lookup\<close>

lemma prep_columns_none:
  assumes "prep_columns e kwargs fs = Inr vals"
    and "(n, f) \<in> set fs"
    and "distinct (map fst fs)"
    and "initial_value kwargs (n, f) = PNone"
  shows "map_of vals n = Some PNone"
  using assms
proof (induction fs arbitrary: vals)
  case Nil
  then show ?case by simp
next
  case (Cons nf rest)
  from Cons.prems(1) obtain v vs where v: "prep_value e (kind (snd nf)) (initial_value kwargs nf) = Inr v"
    and vs: "prep_columns e kwargs rest = Inr vs" and vals: "vals = (fst nf, v) # vs"
    by (auto simp add: sum_bind_def split: sum.splits)
  show ?case
  proof (cases "nf = (n, f)")
    case True
    with v Cons.prems(4) have "v = PNone"
      by (simp add: prep_value_def)
    with True vals show ?thesis by simp
  next
    case False
    with Cons.prems(2) have mem: "(n, f) \<in> set rest" by simp
    with Cons.prems(3) have "fst nf \<noteq> n"
      by (metis distinct.simps(2) fst_conv image_eqI list.simps(9) set_map)
    moreover have "map_of vs n = Some PNone"
      using Cons.IH [OF vs mem _ Cons.prems(4)] Cons.prems(3) by simp
    ultimately show ?thesis
      using vals by simp
  qed
qed

lemma not_null_violation_feels_like:
  assumes "map_of vals ''feels_like'' = Some PNone"
  shows "not_null_violation vals \<noteq> None"
proof -
  let ?P = "\<lambda>(name, f). \<not> nullable f \<and> map_of vals name = Some PNone"
  have "(''feels_like'', \<lparr>kind = FloatField, nullable = False, declared_default = None\<rparr>)
          \<in> set writable_fields"
    by (simp add: writable_fields_def WeatherQuery_fields_def)
  then have "filter ?P writable_fields \<noteq> []"
    using assms by (force simp add: filter_empty_conv)
  then show ?thesis
    by (auto simp add: not_null_violation_def split: list.splits)
qed

lemma create_without_feels_like:
  assumes "map_of kwargs ''feels_like'' = None"
  shows "\<exists>err. objects_create e w kwargs = (Inl err, w)"
proof (cases "list_all (\<lambda>(k, v). k \<in> set (map fst WeatherQuery_fields)) kwargs")
  case False
  then show ?thesis by (simp add: objects_create_def)
next
  case True
  show ?thesis
  proof (cases "prep_columns e kwargs writable_fields")
    case (Inl err)
    with True show ?thesis by (simp add: objects_create_def)
  next
    case (Inr vals)
    have "map_of vals ''feels_like'' = Some PNone"
    proof (rule prep_columns_none [OF Inr])
      show "(''feels_like'', \<lparr>kind = FloatField, nullable = False, declared_default = None\<rparr>)
          \<in> set writable_fields"
        by (simp add: writable_fields_def WeatherQuery_fields_def)
      show "distinct (map fst writable_fields)"
        by (simp add: writable_fields_def WeatherQuery_fields_def)
      show "initial_value kwargs (''feels_like'', \<lparr>kind = FloatField, nullable = False, declared_default = None\<rparr>) = PNone"
        using assms by (simp add: initial_value_def field_default_def)
    qed
    then obtain name where "not_null_violation vals = Some name"
      using not_null_violation_feels_like by blast
    with True Inr show ?thesis by (simp add: objects_create_def)
  qed
qed

lemma get_prep_value_sample_env [simp]: "get_prep_value sample_env k v = Inr v"
  by (simp add: sample_env_def)

text \<open>
  Claim C5. The job that records a lookup should append one row and queue the clean-up
  job. Its \<^verbatim>\<open>create\<close> passes no value for \<^verbatim>\<open>feels_like\<close>, \<^verbatim>\<open>humidity\<close> and \<^verbatim>\<open>pressure\<close>,
  columns that are not nullable and have no default: for every argument the job raises,
  the table and the queue are as before, and in the sample environment the exception
  is the \<^verbatim>\<open>IntegrityError\<close> for \<^verbatim>\<open>feels_like\<close>.
\<close>

theorem save_weather_query_async_never_saves:
  "(\<exists>err. save_weather_query_async e w cty ctry weather_data ip ua = (Inl err, w))
   \<and> save_weather_query_async sample_env empty_world ''Lisboa'' (Some ''PT'') lisboa_record
         (Some ''203.0.113.7'') (Some ''curl'')
       = (Inl (IntegrityError ''feels_like''), empty_world)"
proof -
  let ?kwargs = "[(''city'', PStr cty),
              (''country'', PStr (or_empty ctry)),
              (''temperature'', get_default weather_data ''temperature'' (PInt 0)),
              (''description'', get_default weather_data ''description'' (PStr [])),
              (''ip_address'', PStr (or_empty ip)),
              (''user_agent'', PStr (or_empty ua))]"
  have "map_of ?kwargs ''feels_like'' = None"
    by simp
  then obtain err where "objects_create e w ?kwargs = (Inl err, w)"
    using create_without_feels_like by blast
  then have general: "\<exists>err. save_weather_query_async e w cty ctry weather_data ip ua = (Inl err, w)"
    by (simp add: save_weather_query_async_def)
  have sample: "save_weather_query_async sample_env empty_world ''Lisboa'' (Some ''PT'') lisboa_record
         (Some ''203.0.113.7'') (Some ''curl'')
       = (Inl (IntegrityError ''feels_like''), empty_world)"
    by (simp add: save_weather_query_async_def objects_create_def WeatherQuery_fields_def
        writable_fields_def sum_bind_def prep_value_def initial_value_def field_default_def
        get_default_def lisboa_record_def not_null_violation_def)
  show ?thesis
    using general sample by blast
qed

section \<open>The history endpoint\<close>

lemma query_timestamp_is_field:
  "order_by e ''-query_timestamp'' rs = Inr (db_order e ''-query_timestamp'' rs)"
  by (simp add: order_by_def ordering_name_def WeatherQuery_fields_def)

lemma get_weather_history_take:
  "0 \<le> l \<Longrightarrow> get_weather_history self e w (Some l) = Inr (take (nat l) (db_order e ''-query_timestamp'' (table w)))"
  "get_weather_history self e w None = Inr (take 10 (db_order e ''-query_timestamp'' (table w)))"
  by (simp_all add: get_weather_history_def query_timestamp_is_field sum_bind_def)

lemma get_history_cases:
  "\<not> truthy (GET req ''limit'') \<Longrightarrow>
     get_history e w req = history_ok e (take 10 (db_order e ''-query_timestamp'' (table w)))"
  "GET req ''limit'' = Some s \<Longrightarrow> s \<noteq> [] \<Longrightarrow> py_int e s = None \<Longrightarrow>
     get_history e w req = \<lparr>status = 400, data = error_body msg_limit_number\<rparr>"
  "GET req ''limit'' = Some s \<Longrightarrow> s \<noteq> [] \<Longrightarrow> py_int e s = Some l \<Longrightarrow> l \<le> 0 \<Longrightarrow>
     get_history e w req = \<lparr>status = 400, data = error_body msg_limit_positive\<rparr>"
  "GET req ''limit'' = Some s \<Longrightarrow> s \<noteq> [] \<Longrightarrow> py_int e s = Some l \<Longrightarrow> 0 < l \<Longrightarrow>
     get_history e w req =
       history_ok e (take (nat (min l 100)) (db_order e ''-query_timestamp'' (table w)))"
  by (simp_all add: get_history_def Let_def get_weather_history_take history_ok_def min_def)

lemma newest_to_oldest_take: "newest_to_oldest rs \<Longrightarrow> newest_to_oldest (take n rs)"
  unfolding newest_to_oldest_def by (metis append_take_drop_id sorted_wrt_append)

lemma three_rows: "table (world_with_rows 3) = [sample_row (Suc 0), sample_row 2, sample_row 3]"
proof -
  have "[1..<Suc 3] = [Suc 0, 2, 3]"
    by code_simp
  then show ?thesis
    by (simp add: world_with_rows_def)
qed

lemma sample_row_timestamp [simp]: "query_timestamp (sample_row i) = i"
  by (simp add: sample_row_def)

lemma db_order_sample_env [simp]: "db_order sample_env expr rs = newest_first rs"
  by (simp add: sample_env_def)

lemma py_int_sample_env [simp]: "py_int sample_env = decimal"
  by (simp add: sample_env_def)

lemma newest_first_three_rows:
  "newest_first [sample_row (Suc 0), sample_row 2, sample_row 3]
     = [sample_row 3, sample_row 2, sample_row (Suc 0)]"
  by (simp add: newest_first_def)

lemma newest_first_sorted: "newest_to_oldest (newest_first rs)"
proof -
  have "sorted (map query_timestamp (sort_key query_timestamp rs))"
    by simp
  then have "sorted_wrt (\<lambda>a b. query_timestamp a \<le> query_timestamp b) (sort_key query_timestamp rs)"
    by (simp only: sorted_map)
  then show ?thesis
    by (simp add: newest_first_def newest_to_oldest_def sorted_wrt_rev)
qed

lemma newest_first_mset: "mset (newest_first rs) = mset rs"
  by (simp add: newest_first_def)

lemma decimal_values:
  "decimal [] = None" "decimal ''abc'' = None" "decimal ''0'' = Some 0"
  "decimal ''-1'' = Some (- 1)" "decimal ''2'' = Some 2" "decimal ''200'' = Some 200"
  by (simp_all add: decimal_def is_digit_def digit_of_def)

lemma GET_history_request [simp]: "GET (history_request l) ''limit'' = l"
  by (simp add: history_request_def)

text \<open>
  A request whose \<^verbatim>\<open>limit\<close> parameter is present and empty is not numeric, yet the
  endpoint answers 200 with the default number of rows.
\<close>

theorem get_history_empty_limit_counterexample:
  "GET (history_request (Some [])) ''limit'' = Some []
   \<and> py_int sample_env [] = None
   \<and> get_history sample_env (world_with_rows 3) (history_request (Some []))
       = \<lparr>status = 200,
          data = PList (map (query_serializer sample_env) [sample_row 3, sample_row 2, sample_row 1])\<rparr>"
  using get_history_cases(1) [of "history_request (Some [])" sample_env "world_with_rows 3"]
  by (simp add: decimal_values three_rows newest_first_three_rows history_ok_def)

text \<open>
  Claim C8, as the code has it. The history endpoint treats a \<^verbatim>\<open>limit\<close> that is absent
  or empty alike and lists at most 10 rows; a non-empty \<^verbatim>\<open>limit\<close> that \<^verbatim>\<open>int\<close> rejects
  yields 400, and so does one that is zero or negative; a limit from 1 to 100 lists at
  most that many rows and a larger one is clamped to 100. Given that the database
  returns the rows of the table ordered by creation instant, newest first, every
  success response lists rows of the table newest first, no row left out is newer than
  a row listed, and the list is empty when the table is.
\<close>

theorem get_history_limits:
  assumes sorted: "newest_to_oldest (db_order e ''-query_timestamp'' (table w))"
    and perm: "mset (db_order e ''-query_timestamp'' (table w)) = mset (table w)"
  shows "(GET req ''limit'' = None \<or> GET req ''limit'' = Some [] \<longrightarrow>
            get_history e w req = history_ok e (take 10 (db_order e ''-query_timestamp'' (table w))))
       \<and> (\<forall>s. GET req ''limit'' = Some s \<and> s \<noteq> [] \<and> py_int e s = None \<longrightarrow>
            get_history e w req = \<lparr>status = 400, data = error_body msg_limit_number\<rparr>)
       \<and> (\<forall>s l. GET req ''limit'' = Some s \<and> s \<noteq> [] \<and> py_int e s = Some l \<and> l \<le> 0 \<longrightarrow>
            get_history e w req = \<lparr>status = 400, data = error_body msg_limit_positive\<rparr>)
       \<and> (\<forall>s l. GET req ''limit'' = Some s \<and> s \<noteq> [] \<and> py_int e s = Some l \<and> 0 < l \<and> l \<le> 100 \<longrightarrow>
            get_history e w req =
              history_ok e (take (nat l) (db_order e ''-query_timestamp'' (table w))))
       \<and> (\<forall>s l. GET req ''limit'' = Some s \<and> s \<noteq> [] \<and> py_int e s = Some l \<and> 100 < l \<longrightarrow>
            get_history e w req =
              history_ok e (take 100 (db_order e ''-query_timestamp'' (table w))))
       \<and> (\<forall>n. newest_to_oldest (take n (db_order e ''-query_timestamp'' (table w)))
              \<and> length (take n (db_order e ''-query_timestamp'' (table w))) \<le> n
              \<and> set (take n (db_order e ''-query_timestamp'' (table w))) \<subseteq> set (table w)
              \<and> (\<forall>r \<in> set (drop n (db_order e ''-query_timestamp'' (table w))).
                  \<forall>r' \<in> set (take n (db_order e ''-query_timestamp'' (table w))).
                    query_timestamp r \<le> query_timestamp r'))
       \<and> (table w = [] \<longrightarrow> db_order e ''-query_timestamp'' (table w) = [])"
proof -
  let ?ordered = "db_order e ''-query_timestamp'' (table w)"
  have set_eq: "set ?ordered = set (table w)"
    using perm by (rule mset_eq_setD)
  have a: "get_history e w req = history_ok e (take 10 ?ordered)"
    if "GET req ''limit'' = None \<or> GET req ''limit'' = Some []"
    using that get_history_cases(1) [of req e w] by auto
  have d: "get_history e w req = history_ok e (take (nat l) ?ordered)"
    if "GET req ''limit'' = Some s" "s \<noteq> []" "py_int e s = Some l" "0 < l" "l \<le> 100" for s l
    using get_history_cases(4) [OF that(1-4), of w] that(5) by (simp add: min_def)
  have c: "get_history e w req = history_ok e (take 100 ?ordered)"
    if "GET req ''limit'' = Some s" "s \<noteq> []" "py_int e s = Some l" "100 < l" for s l
    using get_history_cases(4) [OF that(1-3), of w] that(4) by (simp add: min_def)
  have f: "newest_to_oldest (take n ?ordered) \<and> length (take n ?ordered) \<le> n
           \<and> set (take n ?ordered) \<subseteq> set (table w)
           \<and> (\<forall>r \<in> set (drop n ?ordered). \<forall>r' \<in> set (take n ?ordered).
                 query_timestamp r \<le> query_timestamp r')" for n
  proof -
    have "newest_to_oldest (take n ?ordered @ drop n ?ordered)"
      using sorted by simp
    then have "\<forall>r \<in> set (drop n ?ordered). \<forall>r' \<in> set (take n ?ordered).
                 query_timestamp r \<le> query_timestamp r'"
      unfolding newest_to_oldest_def sorted_wrt_append by blast
    moreover have "set (take n ?ordered) \<subseteq> set (table w)"
      using set_eq set_take_subset by fastforce
    ultimately show ?thesis
      using newest_to_oldest_take [OF sorted] by simp
  qed
  have g: "?ordered = []" if "table w = []"
    using perm that by simp
  show ?thesis
    using a get_history_cases(2,3) [of req _ e] c d f g by blast
qed

theorem get_history_limits_witness:
  "newest_to_oldest (db_order sample_env ''-query_timestamp'' (table (world_with_rows 3)))
   \<and> mset (db_order sample_env ''-query_timestamp'' (table (world_with_rows 3)))
       = mset (table (world_with_rows 3))
   \<and> get_history sample_env (world_with_rows 3) (history_request None)
       = history_ok sample_env [sample_row 3, sample_row 2, sample_row 1]
   \<and> get_history sample_env (world_with_rows 3) (history_request (Some ''abc''))
       = \<lparr>status = 400, data = error_body msg_limit_number\<rparr>
   \<and> get_history sample_env (world_with_rows 3) (history_request (Some ''0''))
       = \<lparr>status = 400, data = error_body msg_limit_positive\<rparr>
   \<and> get_history sample_env (world_with_rows 3) (history_request (Some ''-1''))
       = \<lparr>status = 400, data = error_body msg_limit_positive\<rparr>
   \<and> get_history sample_env (world_with_rows 3) (history_request (Some ''2''))
       = history_ok sample_env [sample_row 3, sample_row 2]
   \<and> get_history sample_env (world_with_rows 3) (history_request (Some ''200''))
       = history_ok sample_env [sample_row 3, sample_row 2, sample_row 1]
   \<and> get_history sample_env empty_world (history_request None) = history_ok sample_env []"
proof -
  have s: "newest_to_oldest (db_order sample_env ''-query_timestamp'' (table w))" for w :: world
    by (simp add: newest_first_sorted)
  have p: "mset (db_order sample_env ''-query_timestamp'' (table w)) = mset (table w)" for w :: world
    by (simp add: newest_first_mset)
  have e: "table empty_world = []"
    by (simp add: empty_world_def)
  note t = get_history_limits [OF s p, where w = "world_with_rows 3"]
  show ?thesis
    using s [of "world_with_rows 3"] p [of "world_with_rows 3"]
      t [where req = "history_request None"]
      t [where req = "history_request (Some ''abc'')"]
      t [where req = "history_request (Some ''0'')"]
      t [where req = "history_request (Some ''-1'')"]
      t [where req = "history_request (Some ''2'')"]
      t [where req = "history_request (Some ''200'')"]
      get_history_limits [OF s p, where w = empty_world and req = "history_request None"]
    by (simp add: decimal_values three_rows newest_first_three_rows e)
qed

section \<open>Further properties of the parser and of a fresh lookup\<close>

text \<open>
  Property X1. A payload that is an object holding the name, the country under
  \<^verbatim>\<open>sys\<close>, the four readings under \<^verbatim>\<open>main\<close>, a description and an icon in the first
  element of \<^verbatim>\<open>weather\<close> and the speed under \<^verbatim>\<open>wind\<close> is parsed into the record of exactly
  these values; the wind direction and the visibility are taken when present and are 0
  otherwise.
\<close>

theorem parse_weather_data_extracts:
  assumes "map_of kvs ''name'' = Some v_name"
    and "map_of kvs ''sys'' = Some (PDict sys)" and "map_of sys ''country'' = Some v_country"
    and "map_of kvs ''main'' = Some (PDict mn)"
    and "map_of mn ''temp'' = Some v_temp" and "map_of mn ''feels_like'' = Some v_feels"
    and "map_of mn ''humidity'' = Some v_hum" and "map_of mn ''pressure'' = Some v_press"
    and "map_of kvs ''weather'' = Some (PList (PDict w0 # ws))"
    and "map_of w0 ''description'' = Some v_descr" and "map_of w0 ''icon'' = Some v_icon"
    and "map_of kvs ''wind'' = Some (PDict wnd)" and "map_of wnd ''speed'' = Some v_speed"
  shows "parse_weather_data ts (PDict kvs) =
           Inr [(''city'', v_name),
                (''country'', v_country),
                (''temperature'', v_temp),
                (''feels_like'', v_feels),
                (''humidity'', v_hum),
                (''pressure'', v_press),
                (''description'', v_descr),
                (''icon'', v_icon),
                (''wind_speed'', v_speed),
                (''wind_direction'', get_default wnd ''deg'' (PInt 0)),
                (''visibility'', get_default kvs ''visibility'' (PInt 0)),
                (''timestamp'', PStr ts)]"
  using assms
  by (simp add: parse_weather_data_def parse_fields_def sum_bind_def get_default_def
      split: option.splits)

theorem parse_weather_data_extracts_witness:
  "parse_weather_data ''now'' sample_payload =
     Inr [(''city'', PStr sao_paulo),
          (''country'', PStr ''BR''),
          (''temperature'', PFloat (51 / 2)),
          (''feels_like'', PFloat (136 / 5)),
          (''humidity'', PInt 65),
          (''pressure'', PInt 1013),
          (''description'', PStr ''poucas nuvens''),
          (''icon'', PStr ''02d''),
          (''wind_speed'', PFloat (7 / 2)),
          (''wind_direction'', PInt 180),
          (''visibility'', PInt 10000),
          (''timestamp'', PStr ''now'')]
   \<and> parse_weather_data ''now''
        (PDict [(''name'', PStr ''Lisboa''),
                (''sys'', PDict [(''country'', PStr ''PT'')]),
                (''main'', PDict [(''temp'', PInt 18), (''feels_like'', PInt 17),
                                  (''humidity'', PInt 70), (''pressure'', PInt 1020)]),
                (''weather'', PList [PDict [(''description'', PStr ''nublado''), (''icon'', PStr ''04d'')]]),
                (''wind'', PDict [(''speed'', PInt 2)])]) =
     Inr [(''city'', PStr ''Lisboa''),
          (''country'', PStr ''PT''),
          (''temperature'', PInt 18),
          (''feels_like'', PInt 17),
          (''humidity'', PInt 70),
          (''pressure'', PInt 1020),
          (''description'', PStr ''nublado''),
          (''icon'', PStr ''04d''),
          (''wind_speed'', PInt 2),
          (''wind_direction'', PInt 0),
          (''visibility'', PInt 0),
          (''timestamp'', PStr ''now'')]"
  using parse_weather_data_extracts
    [of "[(''name'', PStr ''Lisboa''),
                (''sys'', PDict [(''country'', PStr ''PT'')]),
                (''main'', PDict [(''temp'', PInt 18), (''feels_like'', PInt 17),
                                  (''humidity'', PInt 70), (''pressure'', PInt 1020)]),
                (''weather'', PList [PDict [(''description'', PStr ''nublado''), (''icon'', PStr ''04d'')]]),
                (''wind'', PDict [(''speed'', PInt 2)])]"
      "PStr ''Lisboa''" "[(''country'', PStr ''PT'')]" "PStr ''PT''"
      "[(''temp'', PInt 18), (''feels_like'', PInt 17), (''humidity'', PInt 70), (''pressure'', PInt 1020)]"
      "PInt 18" "PInt 17" "PInt 70" "PInt 1020"
      "[(''description'', PStr ''nublado''), (''icon'', PStr ''04d'')]" "[]"
      "PStr ''nublado''" "PStr ''04d''" "[(''speed'', PInt 2)]" "PInt 2" "''now''"]
  by (simp add: get_default_def parse_sample_payload sample_record_def)

text \<open>
  Property X2. When the payload is an object and a key on the way to a required field
  is missing (the containers before it being objects, \<^verbatim>\<open>weather\<close> a list that starts with
  an object), the parser raises the \<^verbatim>\<open>ValueError\<close> whose text ends in the quoted name of
  the first missing key, in the order in which the fields are read: no default stands
  in for a required field.
\<close>

theorem parse_weather_data_names_missing_key:
  "(map_of kvs ''name'' = None \<longrightarrow>
      parse_weather_data ts (PDict kvs) = Inl (ValueError (msg_incomplete (quote ''name''))))
   \<and> (map_of kvs ''name'' \<noteq> None \<longrightarrow>
    (map_of kvs ''sys'' = None \<longrightarrow>
       parse_weather_data ts (PDict kvs) = Inl (ValueError (msg_incomplete (quote ''sys''))))
    \<and> (map_of kvs ''sys'' = Some (PDict sys) \<longrightarrow>
     (map_of sys ''country'' = None \<longrightarrow>
        parse_weather_data ts (PDict kvs) = Inl (ValueError (msg_incomplete (quote ''country''))))
     \<and> (map_of sys ''country'' \<noteq> None \<longrightarrow>
      (map_of kvs ''main'' = None \<longrightarrow>
         parse_weather_data ts (PDict kvs) = Inl (ValueError (msg_incomplete (quote ''main''))))
      \<and> (map_of kvs ''main'' = Some (PDict mn) \<longrightarrow>
       (map_of mn ''temp'' = None \<longrightarrow>
          parse_weather_data ts (PDict kvs) = Inl (ValueError (msg_incomplete (quote ''temp''))))
       \<and> (map_of mn ''temp'' \<noteq> None \<longrightarrow>
        (map_of mn ''feels_like'' = None \<longrightarrow>
           parse_weather_data ts (PDict kvs) = Inl (ValueError (msg_incomplete (quote ''feels_like''))))
        \<and> (map_of mn ''feels_like'' \<noteq> None \<longrightarrow>
         (map_of mn ''humidity'' = None \<longrightarrow>
            parse_weather_data ts (PDict kvs) = Inl (ValueError (msg_incomplete (quote ''humidity''))))
         \<and> (map_of mn ''humidity'' \<noteq> None \<longrightarrow>
          (map_of mn ''pressure'' = None \<longrightarrow>
             parse_weather_data ts (PDict kvs) = Inl (ValueError (msg_incomplete (quote ''pressure''))))
          \<and> (map_of mn ''pressure'' \<noteq> None \<longrightarrow>
           (map_of kvs ''weather'' = None \<longrightarrow>
              parse_weather_data ts (PDict kvs) = Inl (ValueError (msg_incomplete (quote ''weather''))))
           \<and> (map_of kvs ''weather'' = Some (PList (PDict w0 # ws)) \<longrightarrow>
            (map_of w0 ''description'' = None \<longrightarrow>
               parse_weather_data ts (PDict kvs) = Inl (ValueError (msg_incomplete (quote ''description''))))
            \<and> (map_of w0 ''description'' \<noteq> None \<longrightarrow>
             (map_of w0 ''icon'' = None \<longrightarrow>
                parse_weather_data ts (PDict kvs) = Inl (ValueError (msg_incomplete (quote ''icon''))))
             \<and> (map_of w0 ''icon'' \<noteq> None \<longrightarrow>
              (map_of kvs ''wind'' = None \<longrightarrow>
                 parse_weather_data ts (PDict kvs) = Inl (ValueError (msg_incomplete (quote ''wind''))))
              \<and> (map_of kvs ''wind'' = Some (PDict wnd) \<longrightarrow>
               (map_of wnd ''speed'' = None \<longrightarrow>
                  parse_weather_data ts (PDict kvs) = Inl (ValueError (msg_incomplete (quote ''speed''))))))))))))))))"
  by (auto simp add: parse_weather_data_def parse_fields_def sum_bind_def)

theorem parse_weather_data_names_missing_key_witness:
  "map_of [(''name'', PStr sao_paulo)] ''name'' \<noteq> None
   \<and> map_of [(''name'', PStr sao_paulo)] ''sys'' = None
   \<and> parse_weather_data ''now'' (PDict [(''name'', PStr sao_paulo)])
       = Inl (ValueError (msg_incomplete (quote ''sys'')))
   \<and> msg_incomplete (quote ''sys'') = ''Dados da API incompletos: '' @ [CHR 0x27] @ ''sys'' @ [CHR 0x27]"
  using parse_weather_data_names_missing_key [of "[(''name'', PStr sao_paulo)]" "''now''"]
  by (simp add: msg_incomplete_def quote_def)

text \<open>
  Property X3. A lookup that misses the cache and whose fetch succeeds returns the
  fetched record with \<^verbatim>\<open>cached\<close> false, stores the record (without the flag) under the
  key with the service's time to live, sends exactly one request to the provider, and
  queues one job to record the lookup exactly when a client address was passed; the
  history table is not touched.
\<close>

theorem fresh_lookup_stores_and_queues:
  assumes miss: "cache_get w (make_cache_key (lower e) cty ctry) = None"
    and fetched: "fetch_from_api self e w cty ctry = (Inr d, w')"
  shows "fst (get_weather self e w cty ctry ip ua) = Inr (setitem d ''cached'' (PBool False))
         \<and> cache (snd (get_weather self e w cty ctry ip ua)) (make_cache_key (lower e) cty ctry)
             = Some (d, now w + cache_timeout self)
         \<and> queue (snd (get_weather self e w cty ctry ip ua))
             = (if truthy ip then queue w @ [SaveWeatherQuery cty ctry d ip ua] else queue w)
         \<and> requests (snd (get_weather self e w cty ctry ip ua))
             = requests w @ [build_params self cty ctry]
         \<and> table (snd (get_weather self e w cty ctry ip ua)) = table w"
proof -
  have w': "w' = w\<lparr>requests := requests w @ [build_params self cty ctry]\<rparr>"
    using fetched fetch_from_api_world [of self e w cty ctry] fetch_from_api_no_key [of self e w cty ctry]
    by (cases "truthy (api_key self)") auto
  show ?thesis
    by (simp add: get_weather_miss_ok [OF miss fetched] cache_set_def w')
qed

theorem fresh_lookup_stores_and_queues_witness:
  "cache_get empty_world (make_cache_key (lower sample_env) sao_paulo (Some ''BR'')) = None
   \<and> fetch_from_api (WeatherService sample_env) sample_env empty_world sao_paulo (Some ''BR'') =
       (Inr sample_record,
        empty_world\<lparr>requests := requests empty_world @
           [build_params (WeatherService sample_env) sao_paulo (Some ''BR'')]\<rparr>)
   \<and> queue (snd (get_weather (WeatherService sample_env) sample_env empty_world sao_paulo
          (Some ''BR'') (Some ''203.0.113.7'') (Some ''curl'')))
       = [SaveWeatherQuery sao_paulo (Some ''BR'') sample_record (Some ''203.0.113.7'') (Some ''curl'')]
   \<and> queue (snd (get_weather (WeatherService sample_env) sample_env empty_world sao_paulo
          (Some ''BR'') None (Some ''curl''))) = []"
  using fresh_lookup_stores_and_queues [OF cache_get_empty_world fetch_sample_env,
      where ip = "Some ''203.0.113.7''" and ua = "Some ''curl''"]
    fresh_lookup_stores_and_queues [OF cache_get_empty_world fetch_sample_env,
      where ip = None and ua = "Some ''curl''"]
  by (simp add: cache_get_empty_world fetch_sample_env) (simp add: empty_world_def)

end
